theory Spec2Isabelle
  imports Main "HOL-Library.Word"
begin

section \<open>Data model\<close>

text \<open>
  The development embeds two source files of the voice agent: the browser voice handler
  (class \<^verbatim>\<open>BrowserVoiceHandler\<close>) and the tool execution service (class
  \<^verbatim>\<open>ToolExecutionService\<close>). A JavaScript string is the list of its 16-bit code
  units, numbers that count bytes, tokens or entries are natural numbers, and a value
  that may be \<^verbatim>\<open>null\<close> or \<^verbatim>\<open>undefined\<close> is an option.
\<close>

type_synonym byte = "8 word"
type_synonym buffer = "byte list"
type_synonym code_unit = "16 word"
type_synonym jstring = "code_unit list"

text \<open>
  The string literals of the source are ASCII: \<open>str\<close> gives the code units of such a
  literal, one for each character.
\<close>

definition cu :: "char \<Rightarrow> code_unit" where
  "cu c = of_nat (of_char c)"

definition str :: "string \<Rightarrow> jstring" where
  "str s = map cu s"

text \<open>The exceptions the modelled code can raise or receive.\<close>

datatype exn = Error jstring | TypeError | RangeError | SyntaxError

text \<open>
  A parsed JSON value. Numbers are integers here: the modelled code only tests a number
  for being zero (truthiness).
\<close>

datatype json =
    JNull
  | JBool bool
  | JNum int
  | JStr jstring
  | JArr "json list"
  | JObj "(jstring \<times> json) list"

text \<open>
  An object made by \<^verbatim>\<open>JSON.parse\<close> or by the literal \<^verbatim>\<open>{}\<close> is the list of its
  own properties; its prototype is the object prototype, whose members are read when
  the object has no own property of that name. What a property read gives: nothing, a
  JSON value, or a member of the object prototype (a function, or the prototype itself
  for \<^verbatim>\<open>__proto__\<close>).
\<close>

definition object_prototype_names :: "jstring list" where
  "object_prototype_names =
     [str ''constructor'', str ''__defineGetter__'', str ''__defineSetter__'',
      str ''hasOwnProperty'', str ''__lookupGetter__'', str ''__lookupSetter__'',
      str ''isPrototypeOf'', str ''propertyIsEnumerable'', str ''toString'',
      str ''valueOf'', str ''__proto__'', str ''toLocaleString'']"

datatype jsval = Undefined | Val json | Builtin

text \<open>Reading a property: \<^verbatim>\<open>obj[key]\<close>.\<close>

definition get_prop :: "(jstring \<times> json) list \<Rightarrow> jstring \<Rightarrow> jsval" where
  "get_prop obj key =
     (case map_of obj key of
        Some v \<Rightarrow> Val v
      | None \<Rightarrow> if key \<in> set object_prototype_names then Builtin else Undefined)"

text \<open>JavaScript truthiness of what a property read gives.\<close>

fun truthy :: "jsval \<Rightarrow> bool" where
  "truthy Undefined = False"
| "truthy Builtin = True"
| "truthy (Val JNull) = False"
| "truthy (Val (JBool b)) = b"
| "truthy (Val (JNum n)) = (n \<noteq> 0)"
| "truthy (Val (JStr s)) = (s \<noteq> [])"
| "truthy (Val (JArr xs)) = True"
| "truthy (Val (JObj kvs)) = True"

text \<open>Truthiness of an optional string: \<^verbatim>\<open>null\<close>, \<^verbatim>\<open>undefined\<close> and the empty string are falsy.\<close>

fun truthy_str :: "jstring option \<Rightarrow> bool" where
  "truthy_str None = False"
| "truthy_str (Some s) = (s \<noteq> [])"

text \<open>\<^verbatim>\<open>a || b\<close> on an optional string with a string default.\<close>

definition or_default :: "jstring option \<Rightarrow> jstring \<Rightarrow> jstring" where
  "or_default a b = (case a of None \<Rightarrow> b | Some s \<Rightarrow> if s = [] then b else s)"

record param =
  param_name :: jstring
  param_type :: jstring
  param_required :: bool

record header =
  header_key :: jstring
  header_value :: jstring

record tool =
  tool_name :: jstring
  tool_type :: jstring
  tool_parameters :: "param list option"
  tool_webhookUrl :: "jstring option"
  tool_method :: "jstring option"
  tool_headers :: "header list option"
  tool_runAfterCall :: bool

text \<open>An entry of \<^verbatim>\<open>session.conversationHistory\<close>.\<close>

record turn =
  role :: jstring
  content :: jstring
  timestamp :: nat

text \<open>An entry of \<^verbatim>\<open>session.context\<close>, the history the tool service reads.\<close>

record ctx_msg =
  ctx_role :: jstring
  ctx_text :: jstring

record llm_request =
  req_model :: jstring
  req_contents :: "(jstring \<times> jstring) list"
  req_systemInstruction :: jstring

record llm_response =
  resp_text :: jstring
  inputTokens :: "nat option"
  outputTokens :: "nat option"

record http_request =
  http_url :: jstring
  http_method :: jstring
  http_headers :: "jstring \<rightharpoonup> jstring"
  http_body :: "jstring option"

text \<open>
  Outcomes of the external collaborators. Each collaborator is a sequence of outcomes:
  the \<open>i\<close>-th call receives the \<open>i\<close>-th outcome, and the request it was given is logged
  in the state. \<open>LLMRaises\<close> stands for every way the provider call fails before a reply
  text is at hand: the call raises, or its result carries no text string, which makes
  the statement that reads the text raise.
\<close>

datatype llm_outcome = LLMRaises | LLMResponse llm_response
datatype chat_outcome = ChatRaises jstring | ChatText jstring
datatype fetch_outcome = FetchRaises | HttpResponse nat
datatype sheet_outcome = SheetRaises | SheetResult bool
datatype stt_outcome = SttRaises | SttText "jstring option"
datatype tts_outcome = TtsRaises | TtsAudio jstring

datatype ws_event =
    Transcript jstring
  | AgentResponse jstring
  | Audio jstring jstring
  | ErrorEvent jstring

text \<open>
  The handler: its configuration fields and the collaborators it calls.
  \<open>JSON_parse\<close> is applied only to texts that start with an opening brace, where the
  result is an object or a syntax error (\<open>None\<close>). \<open>utf8Write_large\<close> is what the
  platform's native string writer does when the length it is given is \<open>2\<^sup>3\<^sup>1\<close> or
  more, beyond the signed 32-bit range.
\<close>

record env =
  mysqlPool :: bool
  elevenLabsApiKey :: "jstring option"
  sarvamApiKey :: "jstring option"
  generateContent :: "nat \<Rightarrow> llm_outcome"
  chat :: "nat \<Rightarrow> chat_outcome"
  fetch :: "nat \<Rightarrow> fetch_outcome"
  extractSpreadsheetId :: "jstring \<Rightarrow> jstring option"
  appendGenericRow :: "nat \<Rightarrow> sheet_outcome"
  transcribe :: "nat \<Rightarrow> stt_outcome"
  tts :: "nat \<Rightarrow> tts_outcome"
  JSON_parse :: "jstring \<Rightarrow> (jstring \<times> json) list option"
  JSON_stringify :: "json \<Rightarrow> jstring"
  Date_now :: "nat \<Rightarrow> nat"
  utf8Write_large :: "string \<Rightarrow> nat \<Rightarrow> buffer \<Rightarrow> exn + buffer"

text \<open>
  The session (the fields the modelled operations read or write) together with the
  logs of what the operations did to the outside: requests sent, tools invoked, events
  sent to the browser, and the inputs of every dialog call.
\<close>

record world =
  agentPrompt :: jstring
  agentVoiceId :: jstring
  agentModel :: jstring
  tools :: "tool list option"
  conversationHistory :: "turn list"
  audioBuffer :: "buffer list"
  silenceTimer :: "nat option"
  isProcessing :: bool
  totalInputTokens :: nat
  totalOutputTokens :: nat
  llm_log :: "llm_request list"
  chat_log :: "jstring list"
  http_log :: "http_request list"
  sheet_log :: "(jstring \<times> json \<times> jstring) list"
  stt_log :: "buffer list"
  tts_log :: "(jstring \<times> jstring \<times> jstring) list"
  tool_log :: "(tool \<times> json) list"
  dialog_log :: "jstring list"
  outbox :: "ws_event list"
  clock_reads :: nat

section \<open>Conversation history\<close>

text \<open>
  \<^verbatim>\<open>appendToContext(session, content, role)\<close>: push the entry, stamped with the clock,
  then keep the last 20 entries when there are more (\<^verbatim>\<open>slice(-20)\<close>).
\<close>

definition slice_last :: "nat \<Rightarrow> 'a list \<Rightarrow> 'a list" where
  "slice_last n xs = drop (length xs - n) xs"

definition appendToContext :: "env \<Rightarrow> world \<Rightarrow> jstring \<Rightarrow> jstring \<Rightarrow> world" where
  "appendToContext e w c r =
     (let pushed = conversationHistory w @
            [\<lparr>role = r, content = c, timestamp = Date_now e (clock_reads w)\<rparr>]
      in w\<lparr>conversationHistory :=
              (if length pushed > 20 then slice_last 20 pushed else pushed),
            clock_reads := Suc (clock_reads w)\<rparr>)"

text \<open>A sequence of appends, each given as (content, role).\<close>

fun appends :: "env \<Rightarrow> world \<Rightarrow> (jstring \<times> jstring) list \<Rightarrow> world" where
  "appends e w [] = w"
| "appends e w ((c, r) # rest) = appends e (appendToContext e w c r) rest"

text \<open>The entries a sequence of appends creates, in order, from clock reading \<open>k\<close> on.\<close>

fun stamped :: "env \<Rightarrow> nat \<Rightarrow> (jstring \<times> jstring) list \<Rightarrow> turn list" where
  "stamped e k [] = []"
| "stamped e k ((c, r) # rest) =
     \<lparr>role = r, content = c, timestamp = Date_now e k\<rparr> # stamped e (Suc k) rest"

section \<open>Audio container\<close>

text \<open>
  Node's buffer operations, as far as \<^verbatim>\<open>createWavHeader\<close> uses them. \<open>splice\<close>
  overwrites the bytes from an offset on and never grows the buffer. The integer
  writers raise a range error when the value does not fit the field or the field does
  not fit the buffer. \<^verbatim>\<open>buffer.write(string, offset)\<close> hands the string, the offset and
  the remaining length \<^verbatim>\<open>buffer.length - offset\<close> to the native writer, which takes
  the length as a signed 32-bit integer: up to \<open>2\<^sup>3\<^sup>1 - 1\<close> the string is written (the
  four tags written here are ASCII, one byte for each character); from \<open>2\<^sup>3\<^sup>1\<close> on the
  result is the platform's, \<open>utf8Write_large\<close>. The platform's limit on the size of an
  allocation is outside the model.
\<close>

definition Buffer_alloc :: "nat \<Rightarrow> buffer" where
  "Buffer_alloc n = replicate n 0"

definition utf8 :: "string \<Rightarrow> byte list" where
  "utf8 s = map (\<lambda>c. of_nat (of_char c)) s"

definition splice :: "buffer \<Rightarrow> nat \<Rightarrow> byte list \<Rightarrow> buffer" where
  "splice buf off bs = take off buf @ take (length buf - off) bs @ drop (off + length bs) buf"

fun le_bytes :: "nat \<Rightarrow> nat \<Rightarrow> byte list" where
  "le_bytes 0 v = []"
| "le_bytes (Suc n) v = of_nat (v mod 256) # le_bytes n (v div 256)"

definition Buffer_write :: "env \<Rightarrow> string \<Rightarrow> nat \<Rightarrow> buffer \<Rightarrow> exn + buffer" where
  "Buffer_write e s off buf =
     (if off > length buf then Inl RangeError
      else if length buf - off \<le> 2147483647 then Inr (splice buf off (utf8 s))
      else utf8Write_large e s off buf)"

definition writeUInt32LE :: "nat \<Rightarrow> nat \<Rightarrow> buffer \<Rightarrow> exn + buffer" where
  "writeUInt32LE v off buf =
     (if v > 4294967295 \<or> off + 4 > length buf then Inl RangeError
      else Inr (splice buf off (le_bytes 4 v)))"

definition writeUInt16LE :: "nat \<Rightarrow> nat \<Rightarrow> buffer \<Rightarrow> exn + buffer" where
  "writeUInt16LE v off buf =
     (if v > 65535 \<or> off + 2 > length buf then Inl RangeError
      else Inr (splice buf off (le_bytes 2 v)))"

definition Buffer_copy :: "buffer \<Rightarrow> nat \<Rightarrow> buffer \<Rightarrow> exn + buffer" where
  "Buffer_copy src targetStart target = Inr (splice target targetStart src)"

text \<open>
  Statements run in order; the first exception ends the run. In
  \<^verbatim>\<open>createWavHeader\<close> the quotient \<^verbatim>\<open>bitsPerSample / 8\<close> is exact.
\<close>

fun run_writes :: "(buffer \<Rightarrow> exn + buffer) list \<Rightarrow> buffer \<Rightarrow> exn + buffer" where
  "run_writes [] buf = Inr buf"
| "run_writes (f # fs) buf = (case f buf of Inl x \<Rightarrow> Inl x | Inr buf' \<Rightarrow> run_writes fs buf')"

definition createWavHeader :: "env \<Rightarrow> buffer \<Rightarrow> exn + buffer" where
  "createWavHeader e pcmData =
     (let numChannels = 1;
          sampleRate = 16000;
          bitsPerSample = 16;
          byteRate = sampleRate * numChannels * (bitsPerSample div 8);
          blockAlign = numChannels * (bitsPerSample div 8);
          dataSize = length pcmData
      in run_writes
           [Buffer_write e ''RIFF'' 0,
            writeUInt32LE (36 + dataSize) 4,
            Buffer_write e ''WAVE'' 8,
            Buffer_write e ''fmt '' 12,
            writeUInt32LE 16 16,
            writeUInt16LE 1 20,
            writeUInt16LE numChannels 22,
            writeUInt32LE sampleRate 24,
            writeUInt32LE byteRate 28,
            writeUInt16LE blockAlign 32,
            writeUInt16LE bitsPerSample 34,
            Buffer_write e ''data'' 36,
            writeUInt32LE dataSize 40,
            Buffer_copy pcmData 44]
           (Buffer_alloc (44 + dataSize)))"

text \<open>Reading a little-endian unsigned integer of \<open>n\<close> bytes at an offset.\<close>

fun le_value :: "byte list \<Rightarrow> nat" where
  "le_value [] = 0"
| "le_value (b # bs) = unat b + 256 * le_value bs"

definition readUIntLE :: "buffer \<Rightarrow> nat \<Rightarrow> nat \<Rightarrow> nat" where
  "readUIntLE buf off n = le_value (take n (drop off buf))"

section \<open>Exceptions and sequencing\<close>

text \<open>
  An operation returns its value or the exception it raised, and the state it left.
  \<open>try_catch\<close> is \<^verbatim>\<open>try { body } catch (x) { handler }\<close>.
\<close>

type_synonym 'a result = "(exn + 'a) \<times> world"

definition try_catch :: "'a result \<Rightarrow> (exn \<Rightarrow> world \<Rightarrow> 'a result) \<Rightarrow> 'a result" where
  "try_catch body handler =
     (case body of (Inl x, w') \<Rightarrow> handler x w' | (Inr v, w') \<Rightarrow> (Inr v, w'))"

section \<open>Tool execution service\<close>

text \<open>\<^verbatim>\<open>Array.prototype.join\<close> on strings.\<close>

fun join :: "jstring \<Rightarrow> jstring list \<Rightarrow> jstring" where
  "join sep [] = []"
| "join sep [x] = x"
| "join sep (x # y # ys) = x @ sep @ join sep (y # ys)"

definition nl :: jstring where
  "nl = [0x000A]"

text \<open>
  \<^verbatim>\<open>response.match(/\{[\s\S]*\}/)\<close>: the text from the first opening brace to the last
  closing brace after it, when there is one.
\<close>

definition match_braces :: "jstring \<Rightarrow> jstring option" where
  "match_braces s =
     (let from_open = dropWhile (\<lambda>c. c \<noteq> cu CHR ''{'') s;
          matched = rev (dropWhile (\<lambda>c. c \<noteq> cu CHR ''}'') (rev from_open))
      in if matched = [] then None else Some matched)"

record extraction =
  success :: bool
  data :: "(jstring \<times> json) list"
  missingFields :: "jstring list option"
  error :: "jstring option"

definition parameterDescriptions :: "param list \<Rightarrow> jstring" where
  "parameterDescriptions parameters =
     join nl (map (\<lambda>p. str ''- '' @ param_name p @ str '' ('' @ param_type p @ str '')'' @
                        (if param_required p then str '' [REQUIRED]'' else []) @
                        str '': Extract this value from the conversation'') parameters)"

definition conversationText :: "ctx_msg list \<Rightarrow> jstring" where
  "conversationText conversation =
     join nl (map (\<lambda>msg. ctx_role msg @ str '': '' @ ctx_text msg) conversation)"

definition extractionPrompt :: "param list \<Rightarrow> ctx_msg list \<Rightarrow> jstring" where
  \<open>extractionPrompt parameters conversation =
     str ''You are a data extraction assistant. Extract the following information from the conversation:'' @
     nl @ nl @ parameterDescriptions parameters @ nl @ nl @
     str ''Conversation:'' @ nl @ conversationText conversation @ nl @ nl @
     str ''Return ONLY a valid JSON object with the extracted values. Use null for values not found.'' @
     nl @ str ''Example format: {"field1": "value1", "field2": "value2"}'' @ nl @ nl @
     str ''JSON:''\<close>

text \<open>\<^verbatim>\<open>tool.parameters || []\<close>.\<close>

definition parameters_of :: "tool \<Rightarrow> param list" where
  "parameters_of t = (case tool_parameters t of None \<Rightarrow> [] | Some ps \<Rightarrow> ps)"

text \<open>
  \<^verbatim>\<open>extractDataFromConversation(conversationHistory, tool)\<close>. A response without a
  parsable object leaves the extracted data empty. A required parameter is missing
  when its extracted value is falsy.
\<close>

definition extractDataFromConversation_try ::
    "env \<Rightarrow> world \<Rightarrow> ctx_msg list \<Rightarrow> tool \<Rightarrow> extraction result" where
  "extractDataFromConversation_try e w conversation t =
     (let parameters = parameters_of t;
          w1 = w\<lparr>chat_log := chat_log w @ [extractionPrompt parameters conversation]\<rparr>
      in case chat e (length (chat_log w)) of
           ChatRaises msg \<Rightarrow> (Inl (Error msg), w1)
         | ChatText response \<Rightarrow>
             (let extractedData =
                    (case match_braces response of
                       None \<Rightarrow> []
                     | Some jsonMatch \<Rightarrow>
                         (case JSON_parse e jsonMatch of None \<Rightarrow> [] | Some obj \<Rightarrow> obj));
                  missing = map param_name
                    (filter (\<lambda>p. param_required p \<and>
                                  \<not> truthy (get_prop extractedData (param_name p))) parameters)
              in (Inr \<lparr>success = (length missing = 0), data = extractedData,
                       missingFields = Some missing, error = None\<rparr>, w1)))"

definition extractDataFromConversation ::
    "env \<Rightarrow> world \<Rightarrow> ctx_msg list \<Rightarrow> tool \<Rightarrow> extraction result" where
  "extractDataFromConversation e w conversation t =
     try_catch (extractDataFromConversation_try e w conversation t)
       (\<lambda>x w'. (Inr \<lparr>success = False, data = [], missingFields = None,
                       error = Some (case x of Error msg \<Rightarrow> msg | _ \<Rightarrow> [])\<rparr>, w'))"

text \<open>
  The headers object of a webhook request: the tool's headers are assigned one by one
  to an empty object, a later entry replacing an earlier one with the same key, and
  spread over the JSON content type. Assigning a string to the key \<^verbatim>\<open>__proto__\<close>
  of an object calls the prototype setter, which ignores it: such a header is dropped.
  The object is the map from its keys to their values.
\<close>

definition merge_headers :: "header list option \<Rightarrow> (jstring \<rightharpoonup> jstring)" where
  "merge_headers hs =
     [str ''Content-Type'' \<mapsto> str ''application/json''] ++
     fold (\<lambda>h acc. if header_key h = str ''__proto__'' then acc
                    else acc(header_key h \<mapsto> header_value h))
       (case hs of None \<Rightarrow> [] | Some l \<Rightarrow> l) Map.empty"

text \<open>
  \<^verbatim>\<open>executeWebhookTool(tool, data)\<close>. The response is \<^verbatim>\<open>ok\<close> when its status
  is from 200 to 299.
\<close>

definition executeWebhookTool_try :: "env \<Rightarrow> world \<Rightarrow> tool \<Rightarrow> json \<Rightarrow> bool result" where
  "executeWebhookTool_try e w t d =
     (if \<not> truthy_str (tool_webhookUrl t) then (Inl (Error (str ''Webhook URL is missing'')), w)
      else
        (let method = or_default (tool_method t) (str ''POST'');
             headers = merge_headers (tool_headers t);
             request = \<lparr>http_url = or_default (tool_webhookUrl t) [],
                        http_method = method,
                        http_headers = headers,
                        http_body = (if method = str ''POST'' then Some (JSON_stringify e d) else None)\<rparr>;
             w1 = w\<lparr>http_log := http_log w @ [request]\<rparr>
         in case fetch e (length (http_log w)) of
              FetchRaises \<Rightarrow> (Inl (Error (str ''fetch failed'')), w1)
            | HttpResponse status \<Rightarrow> (Inr (200 \<le> status \<and> status < 300), w1)))"

definition executeWebhookTool :: "env \<Rightarrow> world \<Rightarrow> tool \<Rightarrow> json \<Rightarrow> bool result" where
  "executeWebhookTool e w t d =
     try_catch (executeWebhookTool_try e w t d) (\<lambda>x w'. (Inr False, w'))"

text \<open>
  \<^verbatim>\<open>executeGoogleSheetsTool(tool, data)\<close>. The spreadsheet service is a collaborator:
  it resolves an identifier from the URL and appends a row.
\<close>

definition executeGoogleSheetsTool_try :: "env \<Rightarrow> world \<Rightarrow> tool \<Rightarrow> json \<Rightarrow> bool result" where
  "executeGoogleSheetsTool_try e w t d =
     (if \<not> truthy_str (tool_webhookUrl t) then (Inl (Error (str ''Google Sheets URL is missing'')), w)
      else
        (let spreadsheetId = extractSpreadsheetId e (or_default (tool_webhookUrl t) [])
         in if \<not> truthy_str spreadsheetId then (Inl (Error (str ''Invalid Google Sheets URL'')), w)
            else
              (let sheetName = (if tool_name t = [] then str ''Data Collection'' else tool_name t);
                   w1 = w\<lparr>sheet_log := sheet_log w @ [(or_default spreadsheetId [], d, sheetName)]\<rparr>
               in case appendGenericRow e (length (sheet_log w)) of
                    SheetRaises \<Rightarrow> (Inl (Error (str ''append failed'')), w1)
                  | SheetResult ok \<Rightarrow> (Inr ok, w1))))"

definition executeGoogleSheetsTool :: "env \<Rightarrow> world \<Rightarrow> tool \<Rightarrow> json \<Rightarrow> bool result" where
  "executeGoogleSheetsTool e w t d =
     try_catch (executeGoogleSheetsTool_try e w t d) (\<lambda>x w'. (Inr False, w'))"

text \<open>
  \<^verbatim>\<open>executeTool(tool, data)\<close>. Every invocation is logged. Listing the keys of
  \<^verbatim>\<open>null\<close> data raises a type error inside the guarded block.
\<close>

definition executeTool_try :: "env \<Rightarrow> world \<Rightarrow> tool \<Rightarrow> json \<Rightarrow> bool result" where
  "executeTool_try e w t d =
     (let w1 = w\<lparr>tool_log := tool_log w @ [(t, d)]\<rparr>
      in if d = JNull then (Inl TypeError, w1)
         else if tool_type t = str ''GoogleSheets'' then executeGoogleSheetsTool e w1 t d
         else if tool_type t = str ''Webhook'' then executeWebhookTool e w1 t d
         else (Inr False, w1))"

definition executeTool :: "env \<Rightarrow> world \<Rightarrow> tool \<Rightarrow> json \<Rightarrow> bool result" where
  "executeTool e w t d =
     try_catch (executeTool_try e w t d) (\<lambda>x w'. (Inr False, w'))"

text \<open>
  \<^verbatim>\<open>processToolsDuringCall(session, tools)\<close>: the tools not marked to run after the
  call, each extracted from \<^verbatim>\<open>session.context\<close> and executed when the extraction
  succeeded.
\<close>

fun for_each_tool :: "env \<Rightarrow> ctx_msg list \<Rightarrow> tool list \<Rightarrow> world \<Rightarrow> unit result" where
  "for_each_tool e context [] w = (Inr (), w)"
| "for_each_tool e context (t # ts) w =
     (case extractDataFromConversation e w context t of
        (Inl x, w1) \<Rightarrow> (Inl x, w1)
      | (Inr extraction, w1) \<Rightarrow>
          if success extraction then
            (case executeTool e w1 t (JObj (data extraction)) of
               (Inl x, w2) \<Rightarrow> (Inl x, w2)
             | (Inr ok, w2) \<Rightarrow> for_each_tool e context ts w2)
          else for_each_tool e context ts w1)"

definition processToolsDuringCall :: "env \<Rightarrow> world \<Rightarrow> ctx_msg list \<Rightarrow> tool list \<Rightarrow> unit result" where
  "processToolsDuringCall e w context tls =
     try_catch
       (let duringCallTools = filter (\<lambda>t. \<not> tool_runAfterCall t) tls
        in if length duringCallTools = 0 then (Inr (), w)
           else for_each_tool e context duringCallTools w)
       (\<lambda>x w'. (Inr (), w'))"

section \<open>Dialog turn\<close>

text \<open>
  \<^verbatim>\<open>text.replace(/pat/g, '')\<close> for a literal pattern: every occurrence, found from
  left to right, is removed.
\<close>

function remove_all :: "jstring \<Rightarrow> jstring \<Rightarrow> jstring" where
  "remove_all pat [] = []"
| "remove_all pat (c # cs) =
     (if pat \<noteq> [] \<and> take (length pat) (c # cs) = pat
      then remove_all pat (drop (length pat) (c # cs))
      else c # remove_all pat cs)"
  by pat_completeness auto
termination
  by (relation "measure (\<lambda>(pat, s). length s)") auto

text \<open>
  \<^verbatim>\<open>trim()\<close> removes white space and line terminators from both ends: the code
  units U+0009 to U+000D, U+0020, U+00A0, U+1680, U+2000 to U+200A, U+2028, U+2029,
  U+202F, U+205F, U+3000 and U+FEFF.
\<close>

definition is_space :: "code_unit \<Rightarrow> bool" where
  "is_space u =
     (u \<in> set [0x0009, 0x000A, 0x000B, 0x000C, 0x000D, 0x0020, 0x00A0, 0x1680,
                0x2000, 0x2001, 0x2002, 0x2003, 0x2004, 0x2005, 0x2006, 0x2007, 0x2008,
                0x2009, 0x200A, 0x2028, 0x2029, 0x202F, 0x205F, 0x3000, 0xFEFF])"

definition trim :: "jstring \<Rightarrow> jstring" where
  "trim s = rev (dropWhile is_space (rev (dropWhile is_space s)))"

definition startsWith :: "jstring \<Rightarrow> jstring \<Rightarrow> bool" where
  "startsWith s p = (take (length p) s = p)"

definition endsWith :: "jstring \<Rightarrow> jstring \<Rightarrow> bool" where
  "endsWith s p = (length p \<le> length s \<and> drop (length s - length p) s = p)"

definition cleanText :: "jstring \<Rightarrow> jstring" where
  "cleanText txt = trim (remove_all (str ''```'') (remove_all (str ''```json'') txt))"

text \<open>
  The tool-call check of \<^verbatim>\<open>callLLM\<close>, up to the lookup of the tool: the tool to
  execute with the parsed \<^verbatim>\<open>tool\<close> and \<^verbatim>\<open>data\<close> values, or \<open>None\<close> when the reply
  is returned as it is (not an object text, a syntax error, a falsy field, no database
  pool, no tool of that name). The tool found has the parsed \<^verbatim>\<open>tool\<close> value as its
  name, so that value is a JSON string; a truthy \<^verbatim>\<open>data\<close> is a JSON value, since
  \<^verbatim>\<open>data\<close> is not a member of the object prototype.
\<close>

definition detect_tool_call ::
    "env \<Rightarrow> tool list option \<Rightarrow> jstring \<Rightarrow> (tool \<times> json \<times> json) option" where
  "detect_tool_call e session_tools txt =
     (let clean = cleanText txt
      in if startsWith clean (str ''{'') \<and> endsWith clean (str ''}'') then
           (case JSON_parse e clean of
              None \<Rightarrow> None
            | Some parsed \<Rightarrow>
                (let parsed_tool = get_prop parsed (str ''tool'');
                     parsed_data = get_prop parsed (str ''data'')
                 in if truthy parsed_tool \<and> truthy parsed_data then
                      if truthy parsed_tool \<and> mysqlPool e then
                        (case session_tools of
                           None \<Rightarrow> None
                         | Some ts \<Rightarrow>
                             (case find (\<lambda>t. Val (JStr (tool_name t)) = parsed_tool) ts of
                                None \<Rightarrow> None
                              | Some t \<Rightarrow>
                                  (case (parsed_tool, parsed_data) of
                                     (Val tool_value, Val data_value) \<Rightarrow>
                                       Some (t, tool_value, data_value)
                                   | _ \<Rightarrow> None)))
                      else None
                    else None))
         else None)"

definition apology :: jstring where
  "apology =
     str (''I apologize, but I'' @ [CHR 0x27] @
          ''m having trouble processing your request right now.'')"

definition continue_input :: jstring where
  "continue_input = str ''Tool executed successfully. Please continue.''"

definition tool_status :: "env \<Rightarrow> json \<Rightarrow> jstring" where
  "tool_status e parsed_tool =
     JSON_stringify e (JObj [(str ''tool'', parsed_tool), (str ''status'', JStr (str ''success'')),
                             (str ''message'', JStr (str ''Data processing initiated''))])"

definition llm_request_of :: "world \<Rightarrow> llm_request" where
  "llm_request_of w =
     \<lparr>req_model = (if agentModel w = [] then str ''gemini-2.0-flash'' else agentModel w),
      req_contents = map (\<lambda>msg. (if role msg = str ''assistant'' then str ''model'' else str ''user'',
                                  content msg)) (conversationHistory w),
      req_systemInstruction = agentPrompt w\<rparr>"

definition add_tokens :: "nat \<Rightarrow> nat option \<Rightarrow> nat" where
  "add_tokens counted reported =
     (case reported of None \<Rightarrow> counted | Some n \<Rightarrow> if n \<noteq> 0 then counted + n else counted)"

text \<open>
  The bookkeeping of one dialog call: the call and its provider request are logged,
  and the token counts the provider reported are added to the session.
\<close>

definition log_call :: "world \<Rightarrow> jstring \<Rightarrow> world" where
  "log_call w userInput =
     w\<lparr>dialog_log := dialog_log w @ [userInput], llm_log := llm_log w @ [llm_request_of w]\<rparr>"

definition count_tokens :: "world \<Rightarrow> llm_response \<Rightarrow> world" where
  "count_tokens w response =
     w\<lparr>totalInputTokens := add_tokens (totalInputTokens w) (inputTokens response),
       totalOutputTokens := add_tokens (totalOutputTokens w) (outputTokens response)\<rparr>"

text \<open>
  \<^verbatim>\<open>callLLM(session, userInput)\<close>. The function calls itself after a tool was
  executed, so it is a partial function: \<open>None\<close> is a call that never returns. A raise
  of the provider is caught and answered with the apology; an exception in the tool
  block is caught there and the reply text is returned.
\<close>

partial_function (option) callLLM :: "env \<Rightarrow> world \<Rightarrow> jstring \<Rightarrow> jstring result option" where
  "callLLM e w userInput =
     (case generateContent e (length (llm_log w)) of
        LLMRaises \<Rightarrow> Some (Inr apology, log_call w userInput)
      | LLMResponse response \<Rightarrow>
          (let w2 = count_tokens (log_call w userInput) response
           in case detect_tool_call e (tools w2) (resp_text response) of
                None \<Rightarrow> Some (Inr (resp_text response), w2)
              | Some (t, parsed_tool, parsed_data) \<Rightarrow>
                  (case executeTool e w2 t parsed_data of
                     (Inl x, w3) \<Rightarrow> Some (Inr (resp_text response), w3)
                   | (Inr ok, w3) \<Rightarrow>
                       callLLM e (appendToContext e w3 (tool_status e parsed_tool) (str ''user''))
                         continue_input)))"

section \<open>Speech synthesis\<close>

fun includes_str :: "jstring \<Rightarrow> jstring \<Rightarrow> bool" where
  "includes_str [] pat = (pat = [])"
| "includes_str (c # cs) pat = (take (length pat) (c # cs) = pat \<or> includes_str cs pat)"

text \<open>
  \<^verbatim>\<open>toLowerCase()\<close>, as far as the voice list needs it: the letters A to Z are
  lowered and every other code unit is kept. The only other characters the function
  turns into ASCII letters are U+212A, which becomes k, a letter no listed voice holds,
  and U+0130, which becomes i followed by U+0307; so membership in the voice list is
  the same.
\<close>

definition toLowerCase :: "jstring \<Rightarrow> jstring" where
  "toLowerCase s = map (\<lambda>u. if 0x0041 \<le> u \<and> u \<le> 0x005A then u + 0x0020 else u) s"

definition sarvamVoices :: "jstring list" where
  "sarvamVoices = [str ''meera'', str ''ananya'', str ''aditi'', str ''vidya'', str ''arvind'', str ''abhilash'',
                   str ''aarav'', str ''arya'', str ''hitesh'', str ''chitra'']"

definition getVoiceProvider :: "jstring \<Rightarrow> jstring" where
  "getVoiceProvider voiceId =
     (if includes_str voiceId (str ''sarvam'') \<or> toLowerCase voiceId \<in> set sarvamVoices
      then str ''sarvam'' else str ''elevenlabs'')"

text \<open>
  The two synthesis operations. The vendor's answer is a collaborator outcome: audio
  in base64, or a failure (transport, status, missing audio).
\<close>

definition synthesize_with :: "env \<Rightarrow> world \<Rightarrow> jstring \<Rightarrow> jstring option \<Rightarrow> jstring \<Rightarrow> jstring \<Rightarrow> unit result" where
  "synthesize_with e w provider apiKey fmt txt =
     (if \<not> truthy_str apiKey then (Inl (Error (provider @ str '' API key not configured'')), w)
      else
        (let w1 = w\<lparr>tts_log := tts_log w @ [(provider, agentVoiceId w, txt)]\<rparr>
         in case tts e (length (tts_log w)) of
              TtsRaises \<Rightarrow> (Inl (Error (provider @ str '' TTS error'')), w1)
            | TtsAudio base64Audio \<Rightarrow> (Inr (), w1\<lparr>outbox := outbox w1 @ [Audio base64Audio fmt]\<rparr>)))"

definition synthesizeElevenLabsTTS :: "env \<Rightarrow> world \<Rightarrow> jstring \<Rightarrow> unit result" where
  "synthesizeElevenLabsTTS e w txt = synthesize_with e w (str ''ElevenLabs'') (elevenLabsApiKey e) (str ''mp3'') txt"

definition synthesizeSarvamTTS :: "env \<Rightarrow> world \<Rightarrow> jstring \<Rightarrow> unit result" where
  "synthesizeSarvamTTS e w txt = synthesize_with e w (str ''Sarvam'') (sarvamApiKey e) (str ''wav'') txt"

definition synthesizeAndStreamTTS :: "env \<Rightarrow> world \<Rightarrow> jstring \<Rightarrow> unit result" where
  "synthesizeAndStreamTTS e w txt =
     try_catch
       (let voiceProvider = getVoiceProvider (agentVoiceId w)
        in if voiceProvider = str ''elevenlabs'' then synthesizeElevenLabsTTS e w txt
           else if voiceProvider = str ''sarvam'' then synthesizeSarvamTTS e w txt
           else (Inr (), w))
       (\<lambda>x w'. (Inr (), w'\<lparr>outbox := outbox w' @ [ErrorEvent (str ''Failed to generate speech'')]\<rparr>))"

section \<open>Turn pipeline\<close>

text \<open>
  \<^verbatim>\<open>processUserInput(session, userInput)\<close>: dropped while a turn is in flight;
  otherwise the dialog call, the assistant entry, the response event and the synthesis,
  with the processing flag cleared at the end.
\<close>

definition processUserInput :: "env \<Rightarrow> world \<Rightarrow> jstring \<Rightarrow> unit result option" where
  "processUserInput e w userInput =
     (if isProcessing w then Some (Inr (), w)
      else
        (case callLLM e (w\<lparr>isProcessing := True\<rparr>) userInput of
           None \<Rightarrow> None
         | Some (Inl x, w2) \<Rightarrow>
             Some (Inr (), w2\<lparr>outbox := outbox w2 @ [ErrorEvent (str ''Failed to process your message'')],
                              isProcessing := False\<rparr>)
         | Some (Inr response, w2) \<Rightarrow>
             if response \<noteq> [] then
               (let w3 = appendToContext e w2 response (str ''assistant'');
                    w4 = w3\<lparr>outbox := outbox w3 @ [AgentResponse response]\<rparr>
                in case synthesizeAndStreamTTS e w4 response of
                     (Inl x, w5) \<Rightarrow>
                       Some (Inr (), w5\<lparr>outbox := outbox w5 @ [ErrorEvent (str ''Failed to process your message'')],
                                        isProcessing := False\<rparr>)
                   | (Inr u, w5) \<Rightarrow> Some (Inr (), w5\<lparr>isProcessing := False\<rparr>))
             else Some (Inr (), w2\<lparr>isProcessing := False\<rparr>)))"

text \<open>
  \<^verbatim>\<open>processBufferedAudio(session)\<close>: nothing buffered returns at once; otherwise the
  timer reference is reset, the chunks are concatenated and the buffer is cleared; an
  utterance under 3200 bytes ends there, a longer one is wrapped, transcribed and,
  when the transcript is not blank, sent on to the dialog turn.
\<close>

definition stt_failed :: "world \<Rightarrow> unit result option" where
  "stt_failed w = Some (Inr (), w\<lparr>outbox := outbox w @ [ErrorEvent (str ''Speech recognition failed'')]\<rparr>)"

definition processBufferedAudio :: "env \<Rightarrow> world \<Rightarrow> unit result option" where
  "processBufferedAudio e w =
     (if length (audioBuffer w) = 0 then Some (Inr (), w)
      else
        (let w1 = w\<lparr>silenceTimer := None\<rparr>;
             completeBuffer = concat (audioBuffer w1);
             w2 = w1\<lparr>audioBuffer := []\<rparr>
         in if length completeBuffer < 3200 then Some (Inr (), w2)
            else
              (case createWavHeader e completeBuffer of
                 Inl x \<Rightarrow> stt_failed w2
               | Inr wavBuffer \<Rightarrow>
                   (let w3 = w2\<lparr>stt_log := stt_log w2 @ [wavBuffer]\<rparr>
                    in case transcribe e (length (stt_log w2)) of
                         SttRaises \<Rightarrow> stt_failed w3
                       | SttText None \<Rightarrow> Some (Inr (), w3)
                       | SttText (Some transcript) \<Rightarrow>
                           if transcript \<noteq> [] \<and> trim transcript \<noteq> [] then
                             (let w4 = w3\<lparr>outbox := outbox w3 @ [Transcript transcript]\<rparr>;
                                  w5 = appendToContext e w4 transcript (str ''user'')
                              in case processUserInput e w5 transcript of
                                   None \<Rightarrow> None
                                 | Some (Inl x, w6) \<Rightarrow> stt_failed w6
                                 | Some (Inr u, w6) \<Rightarrow> Some (Inr (), w6))
                           else Some (Inr (), w3)))))"

section \<open>Derived notions used in the statements\<close>

text \<open>
  The 44 header bytes of the container for \<open>n\<close> bytes of samples: the tag RIFF, then
  the other fields one by one.
\<close>

definition wav_fields :: "nat \<Rightarrow> byte list" where
  "wav_fields n =
     le_bytes 4 (36 + n) @ utf8 ''WAVE'' @ utf8 ''fmt '' @ le_bytes 4 16 @
     le_bytes 2 1 @ le_bytes 2 1 @ le_bytes 4 16000 @ le_bytes 4 32000 @ le_bytes 2 2 @
     le_bytes 2 16 @ utf8 ''data'' @ le_bytes 4 n"

definition wav_header :: "nat \<Rightarrow> byte list" where
  "wav_header n = utf8 ''RIFF'' @ wav_fields n"

text \<open>The session fields and logs that executing a tool leaves as they are.\<close>

definition session_kept :: "world \<Rightarrow> world \<Rightarrow> bool" where
  "session_kept w w' =
     (tools w' = tools w \<and> conversationHistory w' = conversationHistory w \<and>
      llm_log w' = llm_log w \<and> dialog_log w' = dialog_log w \<and>
      clock_reads w' = clock_reads w \<and> tool_log w' = tool_log w \<and>
      totalInputTokens w' = totalInputTokens w \<and> totalOutputTokens w' = totalOutputTokens w)"

text \<open>
  The state in which the follow-up dialog call starts: the reply was counted, the tool
  was executed and the status entry was appended.
\<close>

definition after_tool ::
    "env \<Rightarrow> world \<Rightarrow> jstring \<Rightarrow> llm_response \<Rightarrow> tool \<Rightarrow> json \<Rightarrow> json \<Rightarrow> world" where
  "after_tool e w userInput r t parsed_tool parsed_data =
     appendToContext e (snd (executeTool e (count_tokens (log_call w userInput) r) t parsed_data))
       (tool_status e parsed_tool) (str ''user'')"

text \<open>The status entry appended after a tool ran, as the history holds it.\<close>

definition status_turn :: "env \<Rightarrow> world \<Rightarrow> json \<Rightarrow> turn" where
  "status_turn e w parsed_tool =
     \<lparr>role = str ''user'', content = tool_status e parsed_tool,
      timestamp = Date_now e (clock_reads w)\<rparr>"

section \<open>Concrete scenarios\<close>

text \<open>
  A session with one webhook tool named X, and handlers whose provider answers with
  the tool-call text for the first \<open>k\<close> calls (or for every call) and with plain text
  afterwards. The parser and the encoder are given on the texts the scenarios use. The
  native writer of the scenarios writes nothing when the length it is given is beyond
  the signed 32-bit range.
\<close>

definition tool_X :: tool where
  "tool_X = \<lparr>tool_name = str ''X'', tool_type = str ''Webhook'',
      tool_parameters = Some [\<lparr>param_name = str ''a'', param_type = str ''jstring'', param_required = True\<rparr>],
      tool_webhookUrl = Some (str ''https://hooks.example/x''), tool_method = None,
      tool_headers = None, tool_runAfterCall = False\<rparr>"

definition tool_call_text :: jstring where
  \<open>tool_call_text = str ''{"tool":"X","data":{"a":"1"}}''\<close>

definition unnamed_call_text :: jstring where
  \<open>unnamed_call_text = str ''{"tool":"","data":{"a":"1"}}''\<close>

definition count_text :: jstring where
  \<open>count_text = str ''{"count": 0}''\<close>

definition demo_parse :: "jstring \<Rightarrow> (jstring \<times> json) list option" where
  "demo_parse s =
     (if s = tool_call_text
        then Some [(str ''tool'', JStr (str ''X'')), (str ''data'', JObj [(str ''a'', JStr (str ''1''))])]
      else if s = unnamed_call_text
        then Some [(str ''tool'', JStr []), (str ''data'', JObj [(str ''a'', JStr (str ''1''))])]
      else if s = count_text
        then Some [(str ''count'', JNum 0)]
      else None)"

definition demo_stringify :: "json \<Rightarrow> jstring" where
  \<open>demo_stringify j = (if j = JObj [(str ''a'', JStr (str ''1''))] then str ''{"a":"1"}'' else str ''{}'')\<close>

definition reply_tool :: llm_response where
  "reply_tool = \<lparr>resp_text = tool_call_text, inputTokens = Some 12, outputTokens = Some 7\<rparr>"

definition reply_unnamed :: llm_response where
  "reply_unnamed = \<lparr>resp_text = unnamed_call_text, inputTokens = None, outputTokens = None\<rparr>"

definition reply_plain :: llm_response where
  "reply_plain = \<lparr>resp_text = str ''All set.'', inputTokens = Some 9, outputTokens = Some 3\<rparr>"

definition env_chain :: "nat \<Rightarrow> env" where
  "env_chain k =
     \<lparr>mysqlPool = True, elevenLabsApiKey = None, sarvamApiKey = Some (str ''key''),
      generateContent = (\<lambda>i. LLMResponse (if i < k then reply_tool else reply_plain)),
      chat = (\<lambda>i. ChatText count_text),
      fetch = (\<lambda>i. HttpResponse 200),
      extractSpreadsheetId = (\<lambda>u. Some (str ''sheet-1'')),
      appendGenericRow = (\<lambda>i. SheetResult True),
      transcribe = (\<lambda>i. SttText (Some (str ''hello''))),
      tts = (\<lambda>i. TtsAudio (str ''UklGRg=='')),
      JSON_parse = demo_parse,
      JSON_stringify = demo_stringify,
      Date_now = (\<lambda>i. 1000 + i),
      utf8Write_large = (\<lambda>s off buf. Inr buf)\<rparr>"

definition env_loop :: env where
  "env_loop = (env_chain 0)\<lparr>generateContent := (\<lambda>i. LLMResponse reply_tool)\<rparr>"

definition env_nopool :: env where
  "env_nopool = (env_chain 1)\<lparr>mysqlPool := False\<rparr>"

definition env_unnamed :: env where
  "env_unnamed = (env_chain 0)\<lparr>generateContent := (\<lambda>i. LLMResponse reply_unnamed)\<rparr>"

definition reply_empty :: llm_response where
  "reply_empty = \<lparr>resp_text = [], inputTokens = Some 9, outputTokens = None\<rparr>"

definition env_empty :: env where
  "env_empty = (env_chain 0)\<lparr>generateContent := (\<lambda>i. LLMResponse reply_empty)\<rparr>"

definition env_fails_at :: "nat \<Rightarrow> env" where
  "env_fails_at k =
     (env_chain k)\<lparr>generateContent :=
        (\<lambda>i. if i < k then LLMResponse reply_tool else LLMRaises)\<rparr>"

definition session0 :: world where
  "session0 =
     \<lparr>agentPrompt = str ''You are a helpful AI assistant.'', agentVoiceId = str ''meera'',
      agentModel = str ''gemini-2.0-flash'', tools = Some [tool_X], conversationHistory = [],
      audioBuffer = [], silenceTimer = None, isProcessing = False,
      totalInputTokens = 0, totalOutputTokens = 0,
      llm_log = [], chat_log = [], http_log = [], sheet_log = [], stt_log = [], tts_log = [],
      tool_log = [], dialog_log = [], outbox = [], clock_reads = 0\<rparr>"

definition tool_unnamed :: tool where
  "tool_unnamed = tool_X\<lparr>tool_name := []\<rparr>"

definition tool_headed :: tool where
  "tool_headed =
     tool_X\<lparr>tool_headers :=
       Some [\<lparr>header_key = str ''X-Key'', header_value = str ''k1''\<rparr>,
             \<lparr>header_key = str ''__proto__'', header_value = str ''v''\<rparr>]\<rparr>"

definition tool_put :: tool where
  "tool_put = tool_X\<lparr>tool_method := Some (str ''PUT'')\<rparr>"

definition tool_sheet :: tool where
  "tool_sheet = tool_X\<lparr>tool_name := str ''Leads'', tool_type := str ''GoogleSheets''\<rparr>"

definition tool_count :: tool where
  "tool_count = tool_X\<lparr>tool_name := str ''Count'',
      tool_parameters := Some [\<lparr>param_name = str ''count'', param_type = str ''number'', param_required = True\<rparr>]\<rparr>"

definition data_a :: json where
  "data_a = JObj [(str ''a'', JStr (str ''1''))]"

definition short_utterance :: "buffer list" where
  "short_utterance = [[1, 2, 3, 4], [5, 6]]"

section \<open>Code units of ASCII literals\<close>

lemma unat_cu: "unat (cu c) = of_char c"
proof -
  have "(of_char c :: nat) mod 256 < 256" by simp
  then have "(of_char c :: nat) < 256" by (simp only: of_char_mod_256)
  then have "(of_char c :: nat) < 65536" by linarith
  then have "(of_char c :: nat) < 2 ^ 16" by simp
  then show ?thesis
    by (simp add: cu_def unat_of_nat)
qed

lemma cu_inject [simp]: "cu a = cu b \<longleftrightarrow> a = b"
proof
  assume "cu a = cu b"
  then have "unat (cu a) = unat (cu b)" by simp
  then have "(of_char a :: nat) = of_char b" by (simp only: unat_cu)
  then show "a = b" by simp
qed simp

lemma str_simps [simp]:
  "str [] = []" "str (c # cs) = cu c # str cs" "length (str s) = length s"
  by (simp_all add: str_def)

lemma str_inject [simp]: "str a = str b \<longleftrightarrow> a = b"
  by (induction a arbitrary: b) (case_tac b; simp)+

lemma str_empty [simp]: "str s = [] \<longleftrightarrow> s = []"
  by (cases s) simp_all

section \<open>Conversation history: the 20-entry window\<close>

lemma slice_last_append_slice:
  "slice_last n (slice_last n xs @ ys) = slice_last n (xs @ ys)"
  by (cases "n \<le> length xs") (simp_all add: slice_last_def add.commute)

lemma length_slice_last: "length (slice_last n xs) \<le> n"
  by (simp add: slice_last_def)

lemma history_append:
  "conversationHistory (appendToContext e w c r) =
     slice_last 20 (conversationHistory w @
        [\<lparr>role = r, content = c, timestamp = Date_now e (clock_reads w)\<rparr>])"
  by (simp add: appendToContext_def Let_def slice_last_def)

lemma clock_append: "clock_reads (appendToContext e w c r) = Suc (clock_reads w)"
  by (simp add: appendToContext_def Let_def)

lemma history_appends:
  "apps \<noteq> [] \<Longrightarrow>
   conversationHistory (appends e w apps) =
     slice_last 20 (conversationHistory w @ stamped e (clock_reads w) apps)"
proof (induction apps arbitrary: w)
  case Nil
  then show ?case by simp
next
  case (Cons a apps)
  obtain c r where a: "a = (c, r)" by (cases a)
  let ?w = "appendToContext e w c r"
  let ?t = "\<lparr>role = r, content = c, timestamp = Date_now e (clock_reads w)\<rparr>"
  show ?case
  proof (cases "apps = []")
    case True
    then show ?thesis by (simp add: a history_append)
  next
    case False
    have "conversationHistory (appends e ?w apps) =
        slice_last 20 (conversationHistory ?w @ stamped e (clock_reads ?w) apps)"
      using False by (rule Cons.IH)
    also have "\<dots> = slice_last 20 (slice_last 20 (conversationHistory w @ [?t])
                  @ stamped e (Suc (clock_reads w)) apps)"
      by (simp only: history_append clock_append)
    also have "\<dots> = slice_last 20 ((conversationHistory w @ [?t])
                  @ stamped e (Suc (clock_reads w)) apps)"
      by (rule slice_last_append_slice)
    finally show ?thesis by (simp add: a)
  qed
qed

text \<open>
  C3. After an append the history has at most 20 entries, whatever it held before: it
  is the old history with the new entry at the end, cut from the front to its last 20
  entries. After any non-empty sequence of appends the history is the last 20 entries
  of the old history followed by the appended entries in their order, so entries leave
  oldest first and the survivors keep their order.
\<close>

theorem history_window:
  "length (conversationHistory (appendToContext e w c r)) \<le> 20 \<and>
   conversationHistory (appendToContext e w c r) =
     drop (Suc (length (conversationHistory w)) - 20)
       (conversationHistory w @
          [\<lparr>role = r, content = c, timestamp = Date_now e (clock_reads w)\<rparr>]) \<and>
   length (conversationHistory (appends e w (a # apps))) \<le> 20 \<and>
   conversationHistory (appends e w (a # apps)) =
     drop (length (conversationHistory w) + Suc (length apps) - 20)
       (conversationHistory w @ stamped e (clock_reads w) (a # apps))"
proof -
  have len: "length (stamped e k xs) = length xs" for k xs
    by (induction e k xs rule: stamped.induct) simp_all
  have one: "conversationHistory (appendToContext e w c r) =
     slice_last 20 (conversationHistory w @
        [\<lparr>role = r, content = c, timestamp = Date_now e (clock_reads w)\<rparr>])"
    by (rule history_append)
  have many: "conversationHistory (appends e w (a # apps)) =
     slice_last 20 (conversationHistory w @ stamped e (clock_reads w) (a # apps))"
    by (rule history_appends) simp
  have "length (conversationHistory (appendToContext e w c r)) \<le> 20"
    unfolding one by (rule length_slice_last)
  moreover have "length (conversationHistory (appends e w (a # apps))) \<le> 20"
    unfolding many by (rule length_slice_last)
  moreover have "conversationHistory (appendToContext e w c r) =
     drop (Suc (length (conversationHistory w)) - 20)
       (conversationHistory w @
          [\<lparr>role = r, content = c, timestamp = Date_now e (clock_reads w)\<rparr>])"
    unfolding one by (simp add: slice_last_def)
  moreover have "conversationHistory (appends e w (a # apps)) =
     drop (length (conversationHistory w) + Suc (length apps) - 20)
       (conversationHistory w @ stamped e (clock_reads w) (a # apps))"
    unfolding many by (simp add: slice_last_def len del: stamped.simps)
  ultimately show ?thesis by blast
qed

text \<open>A full history loses exactly its oldest entry.\<close>

lemma history_full_evicts_oldest:
  assumes "length (conversationHistory w) = 20"
  shows "conversationHistory (appendToContext e w c r) =
     tl (conversationHistory w) @
       [\<lparr>role = r, content = c, timestamp = Date_now e (clock_reads w)\<rparr>]"
proof -
  have "conversationHistory w \<noteq> []" using assms by auto
  then show ?thesis
    using assms by (simp add: history_append slice_last_def drop_Suc tl_append2)
qed

section \<open>Audio container: the header layout\<close>

lemma length_le_bytes [simp]: "length (le_bytes n v) = n"
  by (induction n arbitrary: v) auto

lemma length_utf8 [simp]: "length (utf8 s) = length s"
  by (simp add: utf8_def)

lemma le_value_le_bytes: "v < 256 ^ n \<Longrightarrow> le_value (le_bytes n v) = v"
proof (induction n arbitrary: v)
  case 0 then show ?case by simp
next
  case (Suc n)
  have "v div 256 < 256 ^ n" using Suc.prems by (simp add: less_mult_imp_div_less mult.commute)
  then have "le_value (le_bytes n (v div 256)) = v div 256" by (rule Suc.IH)
  moreover have "unat (of_nat (v mod 256) :: byte) = v mod 256"
    by (simp add: unat_of_nat)
  ultimately show ?case by simp
qed

lemma splice_fill:
  "length A = off \<Longrightarrow> length bs \<le> k \<Longrightarrow>
   splice (A @ replicate k z @ R) off bs = (A @ bs) @ replicate (k - length bs) z @ R"
  by (simp add: splice_def)

lemma Buffer_write_fill:
  "length A = off \<Longrightarrow> length s \<le> k \<Longrightarrow> k + length R \<le> 2147483647 \<Longrightarrow>
   Buffer_write e s off (A @ replicate k 0 @ R) = Inr ((A @ utf8 s) @ replicate (k - length s) 0 @ R)"
  by (simp add: Buffer_write_def splice_fill)

lemma writeUInt32LE_fill:
  "length A = off \<Longrightarrow> 4 \<le> k \<Longrightarrow> v \<le> 4294967295 \<Longrightarrow>
   writeUInt32LE v off (A @ replicate k 0 @ R) = Inr ((A @ le_bytes 4 v) @ replicate (k - 4) 0 @ R)"
  by (simp add: writeUInt32LE_def splice_fill)

lemma writeUInt16LE_fill:
  "length A = off \<Longrightarrow> 2 \<le> k \<Longrightarrow> v \<le> 65535 \<Longrightarrow>
   writeUInt16LE v off (A @ replicate k 0 @ R) = Inr ((A @ le_bytes 2 v) @ replicate (k - 2) 0 @ R)"
  by (simp add: writeUInt16LE_def splice_fill)

lemma Buffer_copy_fill:
  "Buffer_copy src (length A) (A @ replicate (length src) z) = Inr (A @ src)"
  by (simp add: Buffer_copy_def splice_def)

text \<open>
  The run of the writes once the first tag is in place, whatever the first write made
  of the first four bytes.
\<close>

lemma createWavHeader_from:
  assumes fits: "36 + length pcm \<le> 2147483647"
    and first: "Buffer_write e ''RIFF'' 0 (Buffer_alloc (44 + length pcm)) =
                  Inr (c0 @ replicate 40 0 @ replicate (length pcm) 0)"
    and four: "length c0 = 4"
  shows "createWavHeader e pcm = Inr (c0 @ wav_fields (length pcm) @ pcm)"
proof -
  let ?N = "length pcm"
  let ?R = "replicate ?N (0::byte)"
  let ?A1 = "c0"
  let ?A2 = "?A1 @ le_bytes 4 (36 + ?N)"
  let ?A3 = "?A2 @ utf8 ''WAVE''"
  let ?A4 = "?A3 @ utf8 ''fmt ''"
  let ?A5 = "?A4 @ le_bytes 4 16"
  let ?A6 = "?A5 @ le_bytes 2 1"
  let ?A7 = "?A6 @ le_bytes 2 1"
  let ?A8 = "?A7 @ le_bytes 4 16000"
  let ?A9 = "?A8 @ le_bytes 4 32000"
  let ?A10 = "?A9 @ le_bytes 2 2"
  let ?A11 = "?A10 @ le_bytes 2 16"
  let ?A12 = "?A11 @ utf8 ''data''"
  let ?A13 = "?A12 @ le_bytes 4 ?N"
  have s2: "writeUInt32LE (36 + ?N) 4 (?A1 @ replicate 40 0 @ ?R) = Inr (?A2 @ replicate 36 0 @ ?R)"
    using writeUInt32LE_fill [of ?A1 4 40 "36 + ?N" ?R] fits four by simp
  have s3: "Buffer_write e ''WAVE'' 8 (?A2 @ replicate 36 0 @ ?R) = Inr (?A3 @ replicate 32 0 @ ?R)"
    using Buffer_write_fill [of ?A2 8 "''WAVE''" 36 ?R e] fits four by simp
  have s4: "Buffer_write e ''fmt '' 12 (?A3 @ replicate 32 0 @ ?R) = Inr (?A4 @ replicate 28 0 @ ?R)"
    using Buffer_write_fill [of ?A3 12 "''fmt ''" 32 ?R e] fits four by simp
  have s5: "writeUInt32LE 16 16 (?A4 @ replicate 28 0 @ ?R) = Inr (?A5 @ replicate 24 0 @ ?R)"
    using writeUInt32LE_fill [of ?A4 16 28 16 ?R] four by simp
  have s6: "writeUInt16LE 1 20 (?A5 @ replicate 24 0 @ ?R) = Inr (?A6 @ replicate 22 0 @ ?R)"
    using writeUInt16LE_fill [of ?A5 20 24 1 ?R] four by simp
  have s7: "writeUInt16LE 1 22 (?A6 @ replicate 22 0 @ ?R) = Inr (?A7 @ replicate 20 0 @ ?R)"
    using writeUInt16LE_fill [of ?A6 22 22 1 ?R] four by simp
  have s8: "writeUInt32LE 16000 24 (?A7 @ replicate 20 0 @ ?R) = Inr (?A8 @ replicate 16 0 @ ?R)"
    using writeUInt32LE_fill [of ?A7 24 20 16000 ?R] four by simp
  have s9: "writeUInt32LE 32000 28 (?A8 @ replicate 16 0 @ ?R) = Inr (?A9 @ replicate 12 0 @ ?R)"
    using writeUInt32LE_fill [of ?A8 28 16 32000 ?R] four by simp
  have s10: "writeUInt16LE 2 32 (?A9 @ replicate 12 0 @ ?R) = Inr (?A10 @ replicate 10 0 @ ?R)"
    using writeUInt16LE_fill [of ?A9 32 12 2 ?R] four by simp
  have s11: "writeUInt16LE 16 34 (?A10 @ replicate 10 0 @ ?R) = Inr (?A11 @ replicate 8 0 @ ?R)"
    using writeUInt16LE_fill [of ?A10 34 10 16 ?R] four by simp
  have s12: "Buffer_write e ''data'' 36 (?A11 @ replicate 8 0 @ ?R) = Inr (?A12 @ replicate 4 0 @ ?R)"
    using Buffer_write_fill [of ?A11 36 "''data''" 8 ?R e] fits four by simp
  have s13: "writeUInt32LE ?N 40 (?A12 @ replicate 4 0 @ ?R) = Inr (?A13 @ replicate 0 0 @ ?R)"
    using writeUInt32LE_fill [of ?A12 40 4 ?N ?R] fits four by simp
  have s14: "Buffer_copy pcm 44 (?A13 @ replicate 0 0 @ ?R) = Inr (?A13 @ pcm)"
    using Buffer_copy_fill [of pcm ?A13 0] four by simp
  have rates: "(16000::nat) * 1 * (16 div 8) = 32000" "(1::nat) * (16 div 8) = 2"
    by simp_all
  have "createWavHeader e pcm = Inr (?A13 @ pcm)"
    unfolding createWavHeader_def Let_def rates
    by (simp only: run_writes.simps first s2 s3 s4 s5 s6 s7 s8 s9 s10 s11 s12 s13 s14 sum.case)
  then show ?thesis
    by (simp add: wav_fields_def)
qed

lemma createWavHeader_closed:
  assumes fits: "44 + length pcm \<le> 2147483647"
  shows "createWavHeader e pcm = Inr (wav_header (length pcm) @ pcm)"
proof -
  have "Buffer_write e ''RIFF'' 0 (Buffer_alloc (44 + length pcm)) =
          Inr (utf8 ''RIFF'' @ replicate 40 0 @ replicate (length pcm) 0)"
    using Buffer_write_fill [of "[]" 0 "''RIFF''" 44 "replicate (length pcm) 0" e] fits
    by (simp add: Buffer_alloc_def replicate_add)
  from createWavHeader_from [OF _ this] fits show ?thesis
    by (simp add: wav_header_def)
qed

lemma large_writer_chain: "utf8Write_large (env_chain k) s off buf = Inr buf"
  by (simp add: env_chain_def)

lemma createWavHeader_too_long:
  assumes big: "36 + length pcm > 4294967295"
  shows "createWavHeader (env_chain 0) pcm = Inl RangeError"
  using big
  by (simp add: createWavHeader_def Buffer_write_def writeUInt32LE_def large_writer_chain
        Buffer_alloc_def)

lemma region_header:
  "take 4 (wav_header n @ pcm) = utf8 ''RIFF''"
  "take 4 (drop 8 (wav_header n @ pcm)) = utf8 ''WAVE''"
  "take 4 (drop 4 (wav_header n @ pcm)) = le_bytes 4 (36 + n)"
  "take 4 (drop 40 (wav_header n @ pcm)) = le_bytes 4 n"
  "take 4 (drop 16 (wav_header n @ pcm)) = le_bytes 4 16"
  "take 2 (drop 20 (wav_header n @ pcm)) = le_bytes 2 1"
  "take 2 (drop 22 (wav_header n @ pcm)) = le_bytes 2 1"
  "take 4 (drop 24 (wav_header n @ pcm)) = le_bytes 4 16000"
  "take 4 (drop 28 (wav_header n @ pcm)) = le_bytes 4 32000"
  "take 2 (drop 32 (wav_header n @ pcm)) = le_bytes 2 2"
  "take 2 (drop 34 (wav_header n @ pcm)) = le_bytes 2 16"
  "drop 44 (wav_header n @ pcm) = pcm"
  "length (wav_header n @ pcm) = 44 + length pcm"
  by (simp_all add: wav_header_def wav_fields_def)

lemma first_write_large:
  "Buffer_write (env_chain 0) ''RIFF'' 0 (Buffer_alloc (44 + 2147483604)) =
     Inr (replicate 4 0 @ replicate 40 0 @ replicate 2147483604 0)"
proof -
  have "replicate (4 + (40 + 2147483604)) (0::byte) =
          replicate 4 0 @ replicate 40 0 @ replicate 2147483604 0"
    by (simp only: replicate_add)
  then have "replicate 2147483648 (0::byte) =
          replicate 4 0 @ replicate 40 0 @ replicate 2147483604 0"
    by simp
  then show ?thesis
    by (simp add: Buffer_write_def Buffer_alloc_def large_writer_chain)
qed

lemma createWavHeader_large:
  "createWavHeader (env_chain 0) (replicate 2147483604 0) =
     Inr (replicate 4 0 @ wav_fields 2147483604 @ replicate 2147483604 0)"
proof -
  have n: "length (replicate 2147483604 (0::byte)) = 2147483604"
    by (rule length_replicate)
  have fits: "36 + length (replicate 2147483604 (0::byte)) \<le> 2147483647"
    unfolding n by simp
  have first: "Buffer_write (env_chain 0) ''RIFF'' 0
       (Buffer_alloc (44 + length (replicate 2147483604 (0::byte)))) =
     Inr (replicate 4 0 @ replicate 40 0 @
          replicate (length (replicate 2147483604 (0::byte))) 0)"
    unfolding n by (rule first_write_large)
  have four: "length (replicate 4 (0::byte)) = 4"
    by (rule length_replicate)
  from createWavHeader_from [OF fits first four] show ?thesis
    unfolding n .
qed

text \<open>
  C4. For every input of \<open>N\<close> bytes whose container is shorter than \<open>2\<^sup>3\<^sup>1\<close> bytes
  (\<open>44 + N\<close> at most 2147483647) the builder returns a buffer of \<open>44 + N\<close> bytes: RIFF
  at 0, WAVE at 8, the little-endian fields 36 + N at 4 and N at 40, format chunk size
  16, format code 1, one channel, sample rate 16000, byte rate 32000, block align 2,
  16 bits per sample, and the input bytes unchanged from offset 44.
\<close>

theorem createWavHeader_layout:
  assumes fits: "44 + length pcm \<le> 2147483647"
  shows "\<exists>buf. createWavHeader e pcm = Inr buf \<and>
         length buf = 44 + length pcm \<and>
         take 4 buf = utf8 ''RIFF'' \<and>
         take 4 (drop 8 buf) = utf8 ''WAVE'' \<and>
         readUIntLE buf 4 4 = 36 + length pcm \<and>
         readUIntLE buf 40 4 = length pcm \<and>
         readUIntLE buf 16 4 = 16 \<and>
         readUIntLE buf 20 2 = 1 \<and>
         readUIntLE buf 22 2 = 1 \<and>
         readUIntLE buf 24 4 = 16000 \<and>
         readUIntLE buf 28 4 = 32000 \<and>
         readUIntLE buf 32 2 = 2 \<and>
         readUIntLE buf 34 2 = 16 \<and>
         drop 44 buf = pcm"
proof -
  let ?buf = "wav_header (length pcm) @ pcm"
  have "createWavHeader e pcm = Inr ?buf"
    using fits by (rule createWavHeader_closed)
  moreover have "readUIntLE ?buf 4 4 = 36 + length pcm" "readUIntLE ?buf 40 4 = length pcm"
    using fits by (simp_all only: readUIntLE_def region_header) (simp_all add: le_value_le_bytes)
  moreover have "readUIntLE ?buf 16 4 = 16" "readUIntLE ?buf 20 2 = 1" "readUIntLE ?buf 22 2 = 1"
      "readUIntLE ?buf 24 4 = 16000" "readUIntLE ?buf 28 4 = 32000" "readUIntLE ?buf 32 2 = 2"
      "readUIntLE ?buf 34 2 = 16"
    by (simp_all only: readUIntLE_def region_header) (simp_all add: le_value_le_bytes)
  ultimately show ?thesis
    by (simp only: region_header simp_thms ex_simps sum.inject)
qed

text \<open>Four bytes of samples: a 48-byte container with size fields 40 and 4.\<close>

theorem createWavHeader_layout_witness:
  "44 + length [1, 2, 3, 4 :: byte] \<le> 2147483647 \<and>
   (\<exists>buf. createWavHeader (env_chain 0) [1, 2, 3, 4] = Inr buf \<and> length buf = 48 \<and>
      take 4 buf = [82, 73, 70, 70] \<and> readUIntLE buf 4 4 = 40 \<and>
      readUIntLE buf 40 4 = 4 \<and> drop 44 buf = [1, 2, 3, 4])"
proof -
  have fits: "44 + length [1, 2, 3, 4 :: byte] \<le> 2147483647"
    by simp
  from createWavHeader_layout [OF fits, of "env_chain 0"]
  obtain buf where "createWavHeader (env_chain 0) [1, 2, 3, 4] = Inr buf"
      "length buf = 44 + length [1, 2, 3, 4 :: byte]"
      "take 4 buf = utf8 ''RIFF''" "readUIntLE buf 4 4 = 36 + length [1, 2, 3, 4 :: byte]"
      "readUIntLE buf 40 4 = length [1, 2, 3, 4 :: byte]" "drop 44 buf = [1, 2, 3, 4]"
    by blast
  then have "createWavHeader (env_chain 0) [1, 2, 3, 4] = Inr buf \<and> length buf = 48 \<and>
      take 4 buf = [82, 73, 70, 70] \<and> readUIntLE buf 4 4 = 40 \<and>
      readUIntLE buf 40 4 = 4 \<and> drop 44 buf = [1, 2, 3, 4]"
    by (simp add: utf8_def)
  then show ?thesis
    using fits by blast
qed

text \<open>
  An input of 4294967260 bytes: the size field would be \<open>2\<^sup>3\<^sup>2\<close>, and the builder
  raises. An input of 2147483604 bytes, a container of \<open>2\<^sup>3\<^sup>1\<close> bytes, on a platform
  whose native writer writes nothing beyond the signed 32-bit range: the builder
  returns a buffer whose first four bytes are zero.
\<close>

theorem createWavHeader_oversize_counterexample:
  "createWavHeader (env_chain 0) (replicate 4294967260 0) = Inl RangeError \<and>
   (\<exists>buf. createWavHeader (env_chain 0) (replicate 2147483604 0) = Inr buf \<and>
      take 4 buf = [0, 0, 0, 0])"
proof -
  have "createWavHeader (env_chain 0) (replicate 4294967260 0) = Inl RangeError"
    by (rule createWavHeader_too_long) simp
  moreover have zeros: "replicate 4 (0::byte) = [0, 0, 0, 0]"
    by (simp add: numeral_eq_Suc)
  have "take 4 (replicate 4 (0::byte) @ wav_fields 2147483604 @ replicate 2147483604 0) =
      replicate 4 0"
    by simp
  then have "take 4 (replicate 4 (0::byte) @ wav_fields 2147483604 @ replicate 2147483604 0) =
      [0, 0, 0, 0]"
    by (simp only: zeros)
  ultimately show ?thesis
    by (simp only: createWavHeader_large simp_thms ex_simps sum.inject)
qed

section \<open>Tool execution: results and requests\<close>

lemma executeWebhookTool_kept:
  "\<exists>b w'. executeWebhookTool e w t d = (Inr b, w') \<and> session_kept w w'"
  by (auto simp: executeWebhookTool_def executeWebhookTool_try_def try_catch_def Let_def
        session_kept_def split: fetch_outcome.splits)

lemma executeGoogleSheetsTool_kept:
  "\<exists>b w'. executeGoogleSheetsTool e w t d = (Inr b, w') \<and> session_kept w w'"
  by (auto simp: executeGoogleSheetsTool_def executeGoogleSheetsTool_try_def try_catch_def Let_def
        session_kept_def split: sheet_outcome.splits)

lemma executeTool_effect:
  "\<exists>b w'. executeTool e w t d = (Inr b, w') \<and>
     session_kept (w\<lparr>tool_log := tool_log w @ [(t, d)]\<rparr>) w'"
proof -
  let ?w1 = "w\<lparr>tool_log := tool_log w @ [(t, d)]\<rparr>"
  obtain b1 w1 where g: "executeGoogleSheetsTool e ?w1 t d = (Inr b1, w1)" "session_kept ?w1 w1"
    using executeGoogleSheetsTool_kept by blast
  obtain b2 w2 where h: "executeWebhookTool e ?w1 t d = (Inr b2, w2)" "session_kept ?w1 w2"
    using executeWebhookTool_kept by blast
  have k: "session_kept ?w1 ?w1" by (simp add: session_kept_def)
  show ?thesis
    using g h k by (auto simp: executeTool_def executeTool_try_def try_catch_def Let_def)
qed

lemma webhook_success:
  "fst (executeWebhookTool e w t d) =
     Inr (truthy_str (tool_webhookUrl t) \<and>
          (\<exists>st. fetch e (length (http_log w)) = HttpResponse st \<and> 200 \<le> st \<and> st < 300))"
  by (auto simp: executeWebhookTool_def executeWebhookTool_try_def try_catch_def Let_def
        split: fetch_outcome.splits)

lemma sheets_success:
  "fst (executeGoogleSheetsTool e w t d) =
     Inr (truthy_str (tool_webhookUrl t) \<and>
          truthy_str (extractSpreadsheetId e (or_default (tool_webhookUrl t) [])) \<and>
          appendGenericRow e (length (sheet_log w)) = SheetResult True)"
  by (auto simp: executeGoogleSheetsTool_def executeGoogleSheetsTool_try_def try_catch_def Let_def
        split: sheet_outcome.splits)

lemma map_upd_add:
  "(m(k \<mapsto> v)) ++ M = m ++ ([k \<mapsto> v] ++ M)"
  by (auto simp: map_add_def fun_eq_iff split: option.splits)

lemma fold_headers_lookup:
  "fold (\<lambda>h acc. if header_key h = p then acc
                  else acc(header_key h \<mapsto> header_value h)) hs m =
     m ++ map_of (rev (map (\<lambda>h. (header_key h, header_value h))
                         (filter (\<lambda>h. header_key h \<noteq> p) hs)))"
proof (induction hs arbitrary: m)
  case Nil
  show ?case by simp
next
  case (Cons h hs)
  show ?case
  proof (cases "header_key h = p")
    case True
    then show ?thesis
      using Cons.IH [of m] by simp
  next
    case False
    then show ?thesis
      using Cons.IH [of "m(header_key h \<mapsto> header_value h)"]
      by (simp add: map_upd_add [symmetric] del: fun_upd_apply)
  qed
qed

lemma merge_headers_lookup:
  "merge_headers hs =
     [str ''Content-Type'' \<mapsto> str ''application/json''] ++
     map_of (rev (map (\<lambda>h. (header_key h, header_value h))
                    (filter (\<lambda>h. header_key h \<noteq> str ''__proto__'')
                       (case hs of None \<Rightarrow> [] | Some l \<Rightarrow> l))))"
  unfolding merge_headers_def fold_headers_lookup by simp

text \<open>
  C5. A webhook tool with a target URL makes the executor issue exactly one request:
  to that URL, with the tool's method (POST when none is set), with headers that hold
  the tool's headers (a later entry replacing an earlier one with the same key, an
  entry with the key \<^verbatim>\<open>__proto__\<close> dropped) over the JSON content type, and with the
  JSON encoding of the data as body exactly when the method is POST; every other
  method is sent without a body.
\<close>

theorem webhook_request_issued:
  assumes url: "truthy_str (tool_webhookUrl t)"
  shows "\<exists>req. http_log (snd (executeWebhookTool e w t d)) = http_log w @ [req] \<and>
     http_url req = or_default (tool_webhookUrl t) [] \<and>
     http_method req = or_default (tool_method t) (str ''POST'') \<and>
     http_headers req =
       [str ''Content-Type'' \<mapsto> str ''application/json''] ++
       map_of (rev (map (\<lambda>h. (header_key h, header_value h))
                      (filter (\<lambda>h. header_key h \<noteq> str ''__proto__'')
                         (case tool_headers t of None \<Rightarrow> [] | Some l \<Rightarrow> l)))) \<and>
     http_body req = (if http_method req = str ''POST'' then Some (JSON_stringify e d) else None)"
proof -
  let ?req = "\<lparr>http_url = or_default (tool_webhookUrl t) [],
         http_method = or_default (tool_method t) (str ''POST''),
         http_headers = merge_headers (tool_headers t),
         http_body = (if or_default (tool_method t) (str ''POST'') = str ''POST''
                      then Some (JSON_stringify e d) else None)\<rparr>"
  have "http_log (snd (executeWebhookTool e w t d)) = http_log w @ [?req]"
    using url
    by (auto simp: executeWebhookTool_def executeWebhookTool_try_def try_catch_def Let_def
          split: fetch_outcome.splits)
  then show ?thesis
    by (intro exI [of _ ?req]) (simp add: merge_headers_lookup)
qed

text \<open>
  The tool X with two configured headers, one of them under the key \<^verbatim>\<open>__proto__\<close>,
  and no method set: a POST with the encoded data as body, the content type and the
  first header, and no header under \<^verbatim>\<open>__proto__\<close>.
\<close>

theorem webhook_request_issued_witness:
  \<open>truthy_str (tool_webhookUrl tool_headed) \<and>
   (\<exists>req. http_log (snd (executeWebhookTool (env_chain 0) session0 tool_headed data_a)) = [req] \<and>
      http_url req = str ''https://hooks.example/x'' \<and> http_method req = str ''POST'' \<and>
      http_headers req (str ''Content-Type'') = Some (str ''application/json'') \<and>
      http_headers req (str ''X-Key'') = Some (str ''k1'') \<and>
      http_headers req (str ''__proto__'') = None \<and>
      http_body req = Some (str ''{"a":"1"}''))\<close>
proof -
  have url: "truthy_str (tool_webhookUrl tool_headed)"
    by (simp add: tool_headed_def tool_X_def)
  from webhook_request_issued [OF url, of "env_chain 0" session0 data_a]
  obtain req where r:
    "http_log (snd (executeWebhookTool (env_chain 0) session0 tool_headed data_a)) =
       http_log session0 @ [req] \<and>
     http_url req = or_default (tool_webhookUrl tool_headed) [] \<and>
     http_method req = or_default (tool_method tool_headed) (str ''POST'') \<and>
     http_headers req =
       [str ''Content-Type'' \<mapsto> str ''application/json''] ++
       map_of (rev (map (\<lambda>h. (header_key h, header_value h))
                      (filter (\<lambda>h. header_key h \<noteq> str ''__proto__'')
                         (case tool_headers tool_headed of None \<Rightarrow> [] | Some l \<Rightarrow> l)))) \<and>
     http_body req =
       (if http_method req = str ''POST'' then Some (JSON_stringify (env_chain 0) data_a) else None)"
    ..
  have r1: "http_log (snd (executeWebhookTool (env_chain 0) session0 tool_headed data_a)) = [req]"
    using r by (simp add: session0_def)
  have r2: "http_url req = str ''https://hooks.example/x''"
    using r by (simp add: tool_headed_def tool_X_def or_default_def)
  have r3: "http_method req = str ''POST''"
    using r by (simp add: tool_headed_def tool_X_def or_default_def)
  have h: "http_headers req =
       [str ''Content-Type'' \<mapsto> str ''application/json''] ++
       map_of (rev (map (\<lambda>h. (header_key h, header_value h))
                      (filter (\<lambda>h. header_key h \<noteq> str ''__proto__'')
                         (case tool_headers tool_headed of None \<Rightarrow> [] | Some l \<Rightarrow> l))))"
    using r by blast
  have r4: "http_headers req (str ''Content-Type'') = Some (str ''application/json'')"
    and r5: "http_headers req (str ''X-Key'') = Some (str ''k1'')"
    and r6: "http_headers req (str ''__proto__'') = None"
    unfolding h by (simp_all add: tool_headed_def tool_X_def map_add_def)
  have r7: \<open>http_body req = Some (str ''{"a":"1"}'')\<close>
    using r r3 by (simp add: env_chain_def data_a_def demo_stringify_def)
  show ?thesis
    by (intro conjI exI [of _ req] url r1 r2 r3 r4 r5 r6 r7)
qed

text \<open>The tool X with method PUT: one request, sent without a body.\<close>

theorem webhook_put_counterexample:
  "map http_method (http_log (snd (executeWebhookTool (env_chain 0) session0 tool_put data_a))) =
     [str ''PUT''] \<and>
   map http_body (http_log (snd (executeWebhookTool (env_chain 0) session0 tool_put data_a))) =
     [None]"
  by (simp add: executeWebhookTool_def executeWebhookTool_try_def try_catch_def Let_def
        tool_put_def tool_X_def session0_def env_chain_def or_default_def)

text \<open>
  C6. Executing a tool always returns a boolean, never an exception. The boolean is
  true exactly when the data is not null, the tool has a target URL, and either the
  tool is a webhook whose endpoint answers with a status from 200 to 299, or the tool
  is a spreadsheet tool whose URL resolves to a spreadsheet and whose append reports
  success. Any other status, a transport failure, a missing or unresolvable URL and
  any other tool type give false.
\<close>

theorem executeTool_result:
  "\<exists>b w'. executeTool e w t d = (Inr b, w') \<and>
     (b \<longleftrightarrow> d \<noteq> JNull \<and> truthy_str (tool_webhookUrl t) \<and>
        (tool_type t = str ''Webhook'' \<and>
           (\<exists>st. fetch e (length (http_log w)) = HttpResponse st \<and> 200 \<le> st \<and> st < 300)
         \<or> tool_type t = str ''GoogleSheets'' \<and>
           truthy_str (extractSpreadsheetId e (or_default (tool_webhookUrl t) [])) \<and>
           appendGenericRow e (length (sheet_log w)) = SheetResult True))"
proof -
  let ?w1 = "w\<lparr>tool_log := tool_log w @ [(t, d)]\<rparr>"
  obtain b w' where x: "executeTool e w t d = (Inr b, w')"
    using executeTool_effect by blast
  have wh: "fst (executeWebhookTool e ?w1 t d) =
     Inr (truthy_str (tool_webhookUrl t) \<and>
          (\<exists>st. fetch e (length (http_log w)) = HttpResponse st \<and> 200 \<le> st \<and> st < 300))"
    using webhook_success [of e ?w1 t d] by simp
  have sh: "fst (executeGoogleSheetsTool e ?w1 t d) =
     Inr (truthy_str (tool_webhookUrl t) \<and>
          truthy_str (extractSpreadsheetId e (or_default (tool_webhookUrl t) [])) \<and>
          appendGenericRow e (length (sheet_log w)) = SheetResult True)"
    using sheets_success [of e ?w1 t d] by simp
  have "fst (executeTool e w t d) =
     Inr (d \<noteq> JNull \<and> truthy_str (tool_webhookUrl t) \<and>
        (tool_type t = str ''Webhook'' \<and>
           (\<exists>st. fetch e (length (http_log w)) = HttpResponse st \<and> 200 \<le> st \<and> st < 300)
         \<or> tool_type t = str ''GoogleSheets'' \<and>
           truthy_str (extractSpreadsheetId e (or_default (tool_webhookUrl t) [])) \<and>
           appendGenericRow e (length (sheet_log w)) = SheetResult True))"
  proof (cases "d = JNull")
    case True
    then show ?thesis
      by (simp add: executeTool_def executeTool_try_def try_catch_def Let_def)
  next
    case notnull: False
    show ?thesis
    proof (cases "tool_type t = str ''GoogleSheets''")
      case True
      obtain b1 w1 where "executeGoogleSheetsTool e ?w1 t d = (Inr b1, w1)"
        using executeGoogleSheetsTool_kept by blast
      then have "fst (executeTool e w t d) = fst (executeGoogleSheetsTool e ?w1 t d)"
        using notnull True
        by (simp add: executeTool_def executeTool_try_def try_catch_def Let_def)
      then show ?thesis using True notnull by (simp add: sh)
    next
      case nosheet: False
      show ?thesis
      proof (cases "tool_type t = str ''Webhook''")
        case True
        obtain b2 w2 where "executeWebhookTool e ?w1 t d = (Inr b2, w2)"
          using executeWebhookTool_kept by blast
        then have "fst (executeTool e w t d) = fst (executeWebhookTool e ?w1 t d)"
          using notnull nosheet True
          by (simp add: executeTool_def executeTool_try_def try_catch_def Let_def)
        then show ?thesis using True notnull by (simp add: wh)
      next
        case False
        then show ?thesis
          using nosheet notnull
          by (simp add: executeTool_def executeTool_try_def try_catch_def Let_def)
      qed
    qed
  qed
  with x show ?thesis by simp
qed

text \<open>The webhook tool X against an endpoint answering 200, and against one answering 500.\<close>

theorem executeTool_result_witness:
  "fst (executeTool (env_chain 0) session0 tool_X data_a) = Inr True \<and>
   fst (executeTool ((env_chain 0)\<lparr>fetch := (\<lambda>i. HttpResponse 500)\<rparr>) session0 tool_X data_a) = Inr False"
proof -
  let ?e5 = "(env_chain 0)\<lparr>fetch := (\<lambda>i. HttpResponse 500)\<rparr>"
  from executeTool_result [of "env_chain 0" session0 tool_X data_a]
  have "fst (executeTool (env_chain 0) session0 tool_X data_a) = Inr True"
    by (auto simp: tool_X_def session0_def env_chain_def data_a_def)
  moreover from executeTool_result [of ?e5 session0 tool_X data_a]
  have "fst (executeTool ?e5 session0 tool_X data_a) = Inr False"
    by (auto simp: tool_X_def session0_def env_chain_def data_a_def)
  ultimately show ?thesis by simp
qed

text \<open>A spreadsheet tool whose append succeeds returns true, and no webhook request is sent.\<close>

theorem executeTool_sheets_counterexample:
  "fst (executeTool (env_chain 0) session0 tool_sheet data_a) = Inr True \<and>
   http_log (snd (executeTool (env_chain 0) session0 tool_sheet data_a)) = []"
  by (simp add: executeTool_def executeTool_try_def try_catch_def Let_def
        executeGoogleSheetsTool_def executeGoogleSheetsTool_try_def
        tool_sheet_def tool_X_def session0_def env_chain_def or_default_def data_a_def)

section \<open>Data extraction: required parameters\<close>

lemma extraction_returns:
  assumes "chat e (length (chat_log w)) = ChatText response"
  shows "\<exists>x. extractDataFromConversation e w conversation t =
           (Inr x, w\<lparr>chat_log := chat_log w @ [extractionPrompt (parameters_of t) conversation]\<rparr>) \<and>
         missingFields x = Some (map param_name
            (filter (\<lambda>p. param_required p \<and> \<not> truthy (get_prop (data x) (param_name p)))
               (parameters_of t))) \<and>
         success x = (map param_name
            (filter (\<lambda>p. param_required p \<and> \<not> truthy (get_prop (data x) (param_name p)))
               (parameters_of t)) = [])"
  using assms
  by (simp add: extractDataFromConversation_def extractDataFromConversation_try_def
        try_catch_def Let_def)

lemma extraction_raises:
  assumes "chat e (length (chat_log w)) = ChatRaises msg"
  shows "fst (extractDataFromConversation e w conversation t) =
           Inr \<lparr>success = False, data = [], missingFields = None, error = Some msg\<rparr>"
  using assms
  by (simp add: extractDataFromConversation_def extractDataFromConversation_try_def
        try_catch_def Let_def)

lemma inherited_member_truthy:
  assumes "key \<in> set object_prototype_names" and "map_of obj key = None"
  shows "truthy (get_prop obj key)"
  using assms by (simp add: get_prop_def)

lemma absent_member_falsy:
  assumes "key \<notin> set object_prototype_names" and "map_of obj key = None"
  shows "\<not> truthy (get_prop obj key)"
  using assms by (simp add: get_prop_def)

text \<open>
  C7. When the extraction call to the model returns, the extraction reports success
  exactly when every required parameter reads as a truthy value on the extracted
  object: an extracted value that is not null, not empty, not zero and not false, or,
  when the reply gives no value under that name, a member that every object inherits
  (\<^verbatim>\<open>constructor\<close>, \<^verbatim>\<open>toString\<close>, ...). The missing fields are the names of the
  required parameters that read as falsy, in the order of the parameter list; and a
  tool whose extraction did not succeed is skipped by the processing loop without
  being executed.
\<close>

theorem extraction_success:
  assumes reply: "chat e (length (chat_log w)) = ChatText response"
  shows "\<exists>x w'. extractDataFromConversation e w conversation t = (Inr x, w') \<and>
     (success x \<longleftrightarrow>
        (\<forall>p \<in> set (parameters_of t).
           param_required p \<longrightarrow> truthy (get_prop (data x) (param_name p)))) \<and>
     missingFields x = Some (map param_name
        (filter (\<lambda>p. param_required p \<and> \<not> truthy (get_prop (data x) (param_name p)))
           (parameters_of t))) \<and>
     (\<not> success x \<longrightarrow>
        for_each_tool e conversation (t # ts) w = for_each_tool e conversation ts w' \<and>
        tool_log w' = tool_log w)"
proof -
  let ?w' = "w\<lparr>chat_log := chat_log w @ [extractionPrompt (parameters_of t) conversation]\<rparr>"
  from extraction_returns [OF reply, of conversation t]
  obtain x where x: "extractDataFromConversation e w conversation t = (Inr x, ?w')"
    and m: "missingFields x = Some (map param_name
            (filter (\<lambda>p. param_required p \<and> \<not> truthy (get_prop (data x) (param_name p)))
               (parameters_of t)))"
    and s: "success x = (map param_name
            (filter (\<lambda>p. param_required p \<and> \<not> truthy (get_prop (data x) (param_name p)))
               (parameters_of t)) = [])"
    by blast
  have "success x \<longleftrightarrow>
        (\<forall>p \<in> set (parameters_of t).
           param_required p \<longrightarrow> truthy (get_prop (data x) (param_name p)))"
    unfolding s by (auto simp: filter_empty_conv)
  moreover have "\<not> success x \<longrightarrow>
        for_each_tool e conversation (t # ts) w = for_each_tool e conversation ts ?w' \<and>
        tool_log ?w' = tool_log w"
    by (simp add: x)
  ultimately show ?thesis
    using x m by blast
qed

lemma count_extraction:
  "extractDataFromConversation (env_chain 0) session0 [] tool_count =
     (Inr \<lparr>success = False, data = [(str ''count'', JNum 0)], missingFields = Some [str ''count''],
           error = None\<rparr>,
      session0\<lparr>chat_log := [extractionPrompt (parameters_of tool_count) []]\<rparr>)"
  by (simp add: extractDataFromConversation_def extractDataFromConversation_try_def
        try_catch_def Let_def env_chain_def session0_def tool_count_def tool_X_def
        parameters_of_def match_braces_def count_text_def demo_parse_def
        tool_call_text_def unnamed_call_text_def get_prop_def)

text \<open>A required parameter extracted as 0: reported missing, and the tool is skipped.\<close>

theorem extraction_success_witness:
  "chat (env_chain 0) (length (chat_log session0)) = ChatText count_text \<and>
   (\<exists>x w'. extractDataFromConversation (env_chain 0) session0 [] tool_count = (Inr x, w') \<and>
      \<not> success x \<and> missingFields x = Some [str ''count''] \<and>
      get_prop (data x) (str ''count'') = Val (JNum 0) \<and>
      for_each_tool (env_chain 0) [] [tool_count] session0 = (Inr (), w') \<and>
      tool_log w' = [])"
proof -
  have reply: "chat (env_chain 0) (length (chat_log session0)) = ChatText count_text"
    by (simp add: env_chain_def)
  from extraction_success [OF reply, of "[]" tool_count "[]"]
  obtain x w' where x: "extractDataFromConversation (env_chain 0) session0 [] tool_count = (Inr x, w')"
    and skip: "\<not> success x \<longrightarrow>
        for_each_tool (env_chain 0) [] [tool_count] session0 = for_each_tool (env_chain 0) [] [] w' \<and>
        tool_log w' = tool_log session0"
    by blast
  have xv: "x = \<lparr>success = False, data = [(str ''count'', JNum 0)], missingFields = Some [str ''count''],
           error = None\<rparr>"
    using x by (simp add: count_extraction)
  have ns: "\<not> success x" by (simp add: xv)
  have "missingFields x = Some [str ''count'']" and "get_prop (data x) (str ''count'') = Val (JNum 0)"
    by (simp_all add: xv get_prop_def)
  moreover have "for_each_tool (env_chain 0) [] [tool_count] session0 = (Inr (), w')"
    and "tool_log w' = []"
    using skip ns by (simp_all add: session0_def)
  ultimately show ?thesis
    using reply x ns by blast
qed

text \<open>The extracted value of the required parameter is the number 0, not null, and success is false.\<close>

theorem extraction_zero_counterexample:
  "fst (extractDataFromConversation (env_chain 0) session0 [] tool_count) =
     Inr \<lparr>success = False, data = [(str ''count'', JNum 0)], missingFields = Some [str ''count''],
          error = None\<rparr>"
  by (simp add: count_extraction)

section \<open>Dialog turn: tool calls, failures, the database gate\<close>

lemma callLLM_raises:
  "generateContent e (length (llm_log w)) = LLMRaises \<Longrightarrow>
   callLLM e w userInput = Some (Inr apology, log_call w userInput)"
  by (subst callLLM.simps) simp

lemma tools_bookkeeping [simp]: "tools (count_tokens (log_call w u) r) = tools w"
  by (simp add: count_tokens_def log_call_def)

lemma callLLM_plain:
  "generateContent e (length (llm_log w)) = LLMResponse r \<Longrightarrow>
   detect_tool_call e (tools w) (resp_text r) = None \<Longrightarrow>
   callLLM e w userInput = Some (Inr (resp_text r), count_tokens (log_call w userInput) r)"
  by (subst callLLM.simps) (simp add: Let_def)

lemma callLLM_tool:
  assumes "generateContent e (length (llm_log w)) = LLMResponse r"
    and "detect_tool_call e (tools w) (resp_text r) = Some (t, pt, pd)"
  shows "callLLM e w userInput =
     callLLM e (appendToContext e (snd (executeTool e (count_tokens (log_call w userInput) r) t pd))
                  (tool_status e pt) (str ''user'')) continue_input"
proof -
  let ?w2 = "count_tokens (log_call w userInput) r"
  obtain b w3 where x: "executeTool e ?w2 t pd = (Inr b, w3)"
    using executeTool_effect by blast
  show ?thesis
    by (subst callLLM.simps) (simp add: assms x Let_def)
qed


lemma kept_after_tool:
  "\<exists>w3. snd (executeTool e w t d) = w3 \<and>
     tools w3 = tools w \<and> conversationHistory w3 = conversationHistory w \<and>
     llm_log w3 = llm_log w \<and> dialog_log w3 = dialog_log w \<and>
     clock_reads w3 = clock_reads w \<and> tool_log w3 = tool_log w @ [(t, d)] \<and>
     totalInputTokens w3 = totalInputTokens w \<and> totalOutputTokens w3 = totalOutputTokens w"
  using executeTool_effect [of e w t d] by (auto simp: session_kept_def)

lemma after_tool_fields:
  "tools (after_tool e w u r t pt pd) = tools w"
  "length (llm_log (after_tool e w u r t pt pd)) = Suc (length (llm_log w))"
  "tool_log (after_tool e w u r t pt pd) = tool_log w @ [(t, pd)]"
  "dialog_log (after_tool e w u r t pt pd) = dialog_log w @ [u]"
  "conversationHistory (after_tool e w u r t pt pd) =
     slice_last 20 (conversationHistory w @
       [\<lparr>role = str ''user'', content = tool_status e pt, timestamp = Date_now e (clock_reads w)\<rparr>])"
  using kept_after_tool [of e "count_tokens (log_call w u) r" t pd]
  by (auto simp: after_tool_def appendToContext_def Let_def count_tokens_def log_call_def
        slice_last_def)

lemma after_tool_more:
  "totalInputTokens (after_tool e w u r t pt pd) = add_tokens (totalInputTokens w) (inputTokens r)"
  "totalOutputTokens (after_tool e w u r t pt pd) = add_tokens (totalOutputTokens w) (outputTokens r)"
  "clock_reads (after_tool e w u r t pt pd) = Suc (clock_reads w)"
  using kept_after_tool [of e "count_tokens (log_call w u) r" t pd]
  by (auto simp: after_tool_def appendToContext_def Let_def count_tokens_def log_call_def)

lemma never_returns:
  assumes ret: "callLLM e w u = Some y"
  shows "\<not> (\<forall>i. \<exists>r. generateContent e i = LLMResponse r \<and>
                 detect_tool_call e (tools w) (resp_text r) \<noteq> None)"
proof (rule callLLM.raw_induct [where P = "\<lambda>e w u y.
          \<not> (\<forall>i. \<exists>r. generateContent e i = LLMResponse r \<and>
                 detect_tool_call e (tools w) (resp_text r) \<noteq> None)", OF _ ret], goal_cases)
  case (1 callLLM e w u y)
  note IH = 1(1) and body = 1(2)
  show ?case
  proof
    assume always: "\<forall>i. \<exists>r. generateContent e i = LLMResponse r \<and>
                 detect_tool_call e (tools w) (resp_text r) \<noteq> None"
    then obtain r t pt pd where g: "generateContent e (length (llm_log w)) = LLMResponse r"
      and d: "detect_tool_call e (tools w) (resp_text r) = Some (t, pt, pd)"
      by (metis option.exhaust prod_cases3)
    let ?w2 = "count_tokens (log_call w u) r"
    obtain b w3 where x: "executeTool e ?w2 t pd = (Inr b, w3)" and k: "tools w3 = tools ?w2"
      using executeTool_effect [of e ?w2 t pd] by (auto simp: session_kept_def)
    let ?w4 = "appendToContext e w3 (tool_status e pt) (str ''user'')"
    have same: "tools ?w4 = tools w"
      using k by (simp add: appendToContext_def Let_def)
    have "callLLM e ?w4 continue_input = Some y"
      using body by (simp add: g d x Let_def)
    then have "\<not> (\<forall>i. \<exists>r. generateContent e i = LLMResponse r \<and>
                 detect_tool_call e (tools ?w4) (resp_text r) \<noteq> None)"
      by (rule IH)
    then have "\<not> (\<forall>i. \<exists>r. generateContent e i = LLMResponse r \<and>
                 detect_tool_call e (tools w) (resp_text r) \<noteq> None)"
      unfolding same .
    then show False
      using always by blast
  qed
qed

lemma chain_result:
  assumes "\<forall>i<k. \<exists>r. generateContent e (length (llm_log w) + i) = LLMResponse r \<and>
              detect_tool_call e (tools w) (resp_text r) \<noteq> None"
    and "generateContent e (length (llm_log w) + k) = LLMRaises \<and> txt = apology \<or>
         (\<exists>r. generateContent e (length (llm_log w) + k) = LLMResponse r \<and>
              detect_tool_call e (tools w) (resp_text r) = None \<and> txt = resp_text r)"
  shows "\<exists>w'. callLLM e w u = Some (Inr txt, w') \<and>
           length (llm_log w') = length (llm_log w) + k + 1 \<and>
           length (tool_log w') = length (tool_log w) + k \<and>
           length (dialog_log w') = length (dialog_log w) + k + 1"
  using assms
proof (induction k arbitrary: w u)
  case 0
  from "0.prems"(2) show ?case
  proof
    assume "generateContent e (length (llm_log w) + 0) = LLMRaises \<and> txt = apology"
    then show ?thesis
      by (simp add: callLLM_raises log_call_def)
  next
    assume "\<exists>r. generateContent e (length (llm_log w) + 0) = LLMResponse r \<and>
              detect_tool_call e (tools w) (resp_text r) = None \<and> txt = resp_text r"
    then show ?thesis
      by (auto simp: callLLM_plain log_call_def count_tokens_def)
  qed
next
  case (Suc k)
  from Suc.prems(1) obtain r t pt pd
    where g: "generateContent e (length (llm_log w)) = LLMResponse r"
      and d: "detect_tool_call e (tools w) (resp_text r) = Some (t, pt, pd)"
    by fastforce
  let ?w' = "after_tool e w u r t pt pd"
  have step: "callLLM e w u = callLLM e ?w' continue_input"
    using callLLM_tool [OF g d] by (simp add: after_tool_def)
  have a: "\<forall>i<k. \<exists>r. generateContent e (length (llm_log ?w') + i) = LLMResponse r \<and>
              detect_tool_call e (tools ?w') (resp_text r) \<noteq> None"
  proof (intro allI impI)
    fix i assume "i < k"
    then have "Suc i < Suc k" by simp
    with Suc.prems(1) show "\<exists>r. generateContent e (length (llm_log ?w') + i) = LLMResponse r \<and>
              detect_tool_call e (tools ?w') (resp_text r) \<noteq> None"
      by (simp only: after_tool_fields) (metis add_Suc_shift)
  qed
  have b: "generateContent e (length (llm_log ?w') + k) = LLMRaises \<and> txt = apology \<or>
         (\<exists>r. generateContent e (length (llm_log ?w') + k) = LLMResponse r \<and>
              detect_tool_call e (tools ?w') (resp_text r) = None \<and> txt = resp_text r)"
    using Suc.prems(2) by (simp add: after_tool_fields)
  from Suc.IH [OF a b, of continue_input] show ?case
    by (simp add: step after_tool_fields)
qed

lemma no_exception_escapes:
  assumes ret: "callLLM e w u = Some y"
  shows "\<exists>txt. fst y = Inr txt"
proof (rule callLLM.raw_induct [where P = "\<lambda>e w u y. \<exists>txt. fst y = Inr txt", OF _ ret],
    goal_cases)
  case (1 callLLM e w u y)
  then show ?case
    by (auto simp: Let_def split: llm_outcome.splits option.splits prod.splits sum.splits)
qed

lemma clean_tool_call_text: "cleanText tool_call_text = tool_call_text"
  by (simp add: cleanText_def tool_call_text_def trim_def is_space_def cu_def)

text \<open>A no-break space or a byte order mark around the reply is trimmed like a blank.\<close>

lemma clean_no_break_space:
  "cleanText ([0x00A0, 0xFEFF] @ tool_call_text @ [0x2028]) = tool_call_text"
  by (simp add: cleanText_def tool_call_text_def trim_def is_space_def cu_def)

lemma detect_tool_X:
  assumes "mysqlPool e" and "JSON_parse e = demo_parse"
  shows "detect_tool_call e (Some [tool_X]) tool_call_text = Some (tool_X, JStr (str ''X''), data_a)"
  using assms
  by (simp add: detect_tool_call_def clean_tool_call_text Let_def)
     (simp add: startsWith_def endsWith_def tool_call_text_def demo_parse_def
        get_prop_def tool_X_def data_a_def)

lemma detect_plain: "detect_tool_call e ts (resp_text reply_plain) = None"
  by (simp add: reply_plain_def detect_tool_call_def cleanText_def trim_def is_space_def startsWith_def Let_def
        cu_def)

lemma detect_without_pool: "\<not> mysqlPool e \<Longrightarrow> detect_tool_call e ts txt = None"
  by (simp add: detect_tool_call_def Let_def split: option.splits)


lemma detect_unnamed:
  "detect_tool_call env_unnamed (Some [tool_unnamed]) unnamed_call_text = None"
proof -
  have c: "cleanText unnamed_call_text = unnamed_call_text"
    by (simp add: cleanText_def unnamed_call_text_def trim_def is_space_def cu_def)
  show ?thesis
    by (simp add: detect_tool_call_def c Let_def)
       (simp add: startsWith_def endsWith_def unnamed_call_text_def tool_call_text_def
          env_unnamed_def env_chain_def demo_parse_def get_prop_def)
qed

text \<open>
  C1. The dialog turn has no iteration cap and no fallback message: after each
  executed tool call it makes one further provider call. When the first \<open>k\<close> replies
  are executable tool calls and the next outcome is not (a plain reply or a failure of
  the provider), the turn returns after exactly \<open>k + 1\<close> provider calls and \<open>k\<close> tool
  executions, for every \<open>k\<close>.
\<close>

theorem tool_calls_followed_without_cap:
  assumes calls: "\<forall>i<k. \<exists>r. generateContent e (length (llm_log w) + i) = LLMResponse r \<and>
              detect_tool_call e (tools w) (resp_text r) \<noteq> None"
    and last: "generateContent e (length (llm_log w) + k) = LLMRaises \<or>
         (\<exists>r. generateContent e (length (llm_log w) + k) = LLMResponse r \<and>
              detect_tool_call e (tools w) (resp_text r) = None)"
  shows "\<exists>txt w'. callLLM e w u = Some (Inr txt, w') \<and>
           length (llm_log w') = length (llm_log w) + k + 1 \<and>
           length (tool_log w') = length (tool_log w) + k \<and>
           length (dialog_log w') = length (dialog_log w) + k + 1"
proof -
  from last obtain answer where
    "generateContent e (length (llm_log w) + k) = LLMRaises \<and> answer = apology \<or>
         (\<exists>r. generateContent e (length (llm_log w) + k) = LLMResponse r \<and>
              detect_tool_call e (tools w) (resp_text r) = None \<and> answer = resp_text r)"
    by auto
  from chain_result [OF calls this] show ?thesis
    by blast
qed

text \<open>Six tool-call replies in a row: six tools are executed and seven provider calls are made.\<close>

theorem tool_calls_followed_without_cap_witness:
  "generateContent (env_chain 6) 5 = LLMResponse reply_tool \<and>
   detect_tool_call (env_chain 6) (tools session0) (resp_text reply_tool) \<noteq> None \<and>
   generateContent (env_chain 6) 6 = LLMResponse reply_plain \<and>
   detect_tool_call (env_chain 6) (tools session0) (resp_text reply_plain) = None \<and>
   (\<exists>answer w'. callLLM (env_chain 6) session0 (str ''hello'') = Some (Inr answer, w') \<and>
      length (llm_log w') = 7 \<and> length (tool_log w') = 6 \<and> length (dialog_log w') = 7)"
proof -
  have d: "detect_tool_call (env_chain 6) (tools session0) (resp_text reply_tool) \<noteq> None"
    by (simp add: detect_tool_X env_chain_def session0_def reply_tool_def)
  have p: "detect_tool_call (env_chain 6) (tools session0) (resp_text reply_plain) = None"
    by (simp add: detect_plain)
  have calls: "\<forall>i<6. \<exists>r. generateContent (env_chain 6) (length (llm_log session0) + i) = LLMResponse r \<and>
        detect_tool_call (env_chain 6) (tools session0) (resp_text r) \<noteq> None"
    using d by (simp add: env_chain_def session0_def)
  have last: "generateContent (env_chain 6) (length (llm_log session0) + 6) = LLMRaises \<or>
      (\<exists>r. generateContent (env_chain 6) (length (llm_log session0) + 6) = LLMResponse r \<and>
           detect_tool_call (env_chain 6) (tools session0) (resp_text r) = None)"
    using p by (simp add: env_chain_def session0_def)
  from tool_calls_followed_without_cap [OF calls last, of "(str ''hello'')"]
  have "\<exists>answer w'. callLLM (env_chain 6) session0 (str ''hello'') = Some (Inr answer, w') \<and>
      length (llm_log w') = 7 \<and> length (tool_log w') = 6 \<and> length (dialog_log w') = 7"
    by (simp add: session0_def)
  moreover have "generateContent (env_chain 6) 5 = LLMResponse reply_tool"
    and "generateContent (env_chain 6) 6 = LLMResponse reply_plain"
    by (simp_all add: env_chain_def)
  ultimately show ?thesis
    using d p by blast
qed

text \<open>A provider whose every reply is the tool call naming X: the turn never returns.\<close>

theorem endless_tool_calls_counterexample:
  "callLLM env_loop session0 (str ''hello'') = None"
proof (cases "callLLM env_loop session0 (str ''hello'')")
  case None
  then show ?thesis .
next
  case (Some y)
  have d: "detect_tool_call env_loop (Some [tool_X]) tool_call_text \<noteq> None"
    by (simp add: detect_tool_X env_loop_def env_chain_def)
  have "\<forall>i. \<exists>r. generateContent env_loop i = LLMResponse r \<and>
          detect_tool_call env_loop (tools session0) (resp_text r) \<noteq> None"
    using d by (simp add: env_loop_def session0_def reply_tool_def)
  with never_returns [OF Some] show ?thesis by blast
qed

text \<open>
  C2. With a database pool configured, a session whose first tool named \<open>X\<close> is \<open>t\<close>,
  \<open>X\<close> not empty, and a reply whose cleaned text is an object with \<open>tool\<close> equal to
  \<open>X\<close> and an object \<open>data\<close>: the turn equals the follow-up call with the input
  "Tool executed successfully. Please continue." made after executing \<open>t\<close> and
  appending the status entry; when the follow-up reply is not a tool call, the turn
  returns the follow-up text, the tool was invoked once, one user-role status entry
  was appended, and two provider calls were made.
\<close>

theorem tool_call_runs_once:
  assumes pool: "mysqlPool e"
    and listed: "tools w = Some ts" "find (\<lambda>t. tool_name t = X) ts = Some t"
    and named: "X \<noteq> []"
    and reply: "generateContent e (length (llm_log w)) = LLMResponse r"
    and braces: "startsWith (cleanText (resp_text r)) (str ''{'')" "endsWith (cleanText (resp_text r)) (str ''}'')"
    and parsed: "JSON_parse e (cleanText (resp_text r)) = Some obj"
      "get_prop obj (str ''tool'') = Val (JStr X)" "get_prop obj (str ''data'') = Val (JObj d)"
    and follow: "generateContent e (Suc (length (llm_log w))) = LLMResponse r'"
      "detect_tool_call e (tools w) (resp_text r') = None"
  shows "\<exists>w'. callLLM e w u = Some (Inr (resp_text r'), w') \<and>
           callLLM e w u = callLLM e (after_tool e w u r t (JStr X) (JObj d)) continue_input \<and>
           tool_log w' = tool_log w @ [(t, JObj d)] \<and>
           conversationHistory w' =
             slice_last 20 (conversationHistory w @ [status_turn e w (JStr X)]) \<and>
           dialog_log w' = dialog_log w @ [u, continue_input] \<and>
           length (llm_log w') = length (llm_log w) + 2"
proof -
  let ?a = "after_tool e w u r t (JStr X) (JObj d)"
  have det: "detect_tool_call e (tools w) (resp_text r) = Some (t, JStr X, JObj d)"
    using pool listed named braces parsed by (simp add: detect_tool_call_def Let_def)
  have step: "callLLM e w u = callLLM e ?a continue_input"
    using callLLM_tool [OF reply det] by (simp add: after_tool_def)
  have g: "generateContent e (length (llm_log ?a)) = LLMResponse r'"
    using follow(1) by (simp add: after_tool_fields)
  have n: "detect_tool_call e (tools ?a) (resp_text r') = None"
    using follow(2) by (simp add: after_tool_fields)
  let ?w' = "count_tokens (log_call ?a continue_input) r'"
  have fin: "callLLM e ?a continue_input = Some (Inr (resp_text r'), ?w')"
    using g n by (rule callLLM_plain)
  have "tool_log ?w' = tool_log w @ [(t, JObj d)]"
    and "conversationHistory ?w' = slice_last 20 (conversationHistory w @ [status_turn e w (JStr X)])"
    and "dialog_log ?w' = dialog_log w @ [u, continue_input]"
    and "length (llm_log ?w') = length (llm_log w) + 2"
    by (simp_all add: count_tokens_def log_call_def after_tool_fields status_turn_def)
  with step fin show ?thesis by simp
qed

text \<open>The session with tool X, a tool-call reply and then a plain reply.\<close>

theorem tool_call_runs_once_witness:
  "mysqlPool (env_chain 1) \<and> tools session0 = Some [tool_X] \<and>
   find (\<lambda>t. tool_name t = str ''X'') [tool_X] = Some tool_X \<and> (str ''X'') \<noteq> [] \<and>
   generateContent (env_chain 1) (length (llm_log session0)) = LLMResponse reply_tool \<and>
   startsWith (cleanText (resp_text reply_tool)) (str ''{'') \<and>
   endsWith (cleanText (resp_text reply_tool)) (str ''}'') \<and>
   JSON_parse (env_chain 1) (cleanText (resp_text reply_tool)) =
     Some [(str ''tool'', JStr (str ''X'')), (str ''data'', JObj [(str ''a'', JStr (str ''1''))])] \<and>
   generateContent (env_chain 1) (Suc (length (llm_log session0))) = LLMResponse reply_plain \<and>
   detect_tool_call (env_chain 1) (tools session0) (resp_text reply_plain) = None \<and>
   (\<exists>w'. callLLM (env_chain 1) session0 (str ''hello'') = Some (Inr (str ''All set.''), w') \<and>
      tool_log w' = [(tool_X, JObj [(str ''a'', JStr (str ''1''))])] \<and>
      map content (conversationHistory w') =
        [JSON_stringify (env_chain 1)
           (JObj [(str ''tool'', JStr (str ''X'')), (str ''status'', JStr (str ''success'')),
                  (str ''message'', JStr (str ''Data processing initiated''))])] \<and>
      map role (conversationHistory w') = [str ''user''] \<and>
      dialog_log w' = [str ''hello'', str ''Tool executed successfully. Please continue.''] \<and>
      length (llm_log w') = 2)"
proof -
  let ?obj = "[(str ''tool'', JStr (str ''X'')), (str ''data'', JObj [(str ''a'', JStr (str ''1''))])]"
  have pool: "mysqlPool (env_chain 1)" by (simp add: env_chain_def)
  have listed: "tools session0 = Some [tool_X]" "find (\<lambda>t. tool_name t = str ''X'') [tool_X] = Some tool_X"
    by (simp_all add: session0_def tool_X_def)
  have named: "(str ''X'') \<noteq> []" by simp
  have reply: "generateContent (env_chain 1) (length (llm_log session0)) = LLMResponse reply_tool"
    by (simp add: env_chain_def session0_def)
  have cleaned: "cleanText (resp_text reply_tool) = tool_call_text"
    by (simp add: reply_tool_def clean_tool_call_text)
  have braces: "startsWith (cleanText (resp_text reply_tool)) (str ''{'')"
      "endsWith (cleanText (resp_text reply_tool)) (str ''}'')"
    unfolding cleaned by (simp_all add: startsWith_def endsWith_def tool_call_text_def)
  have parsed: "JSON_parse (env_chain 1) (cleanText (resp_text reply_tool)) = Some ?obj"
      "get_prop ?obj (str ''tool'') = Val (JStr (str ''X''))"
      "get_prop ?obj (str ''data'') = Val (JObj [(str ''a'', JStr (str ''1''))])"
    unfolding cleaned by (simp_all add: env_chain_def demo_parse_def get_prop_def)
  have follow: "generateContent (env_chain 1) (Suc (length (llm_log session0))) = LLMResponse reply_plain"
      "detect_tool_call (env_chain 1) (tools session0) (resp_text reply_plain) = None"
    by (simp_all add: env_chain_def session0_def detect_plain)
  from tool_call_runs_once [OF pool listed named reply braces parsed follow, of "(str ''hello'')"]
  obtain w' where r: "callLLM (env_chain 1) session0 (str ''hello'') = Some (Inr (resp_text reply_plain), w') \<and>
    callLLM (env_chain 1) session0 (str ''hello'') =
      callLLM (env_chain 1)
        (after_tool (env_chain 1) session0 (str ''hello'') reply_tool tool_X (JStr (str ''X''))
           (JObj [(str ''a'', JStr (str ''1''))])) continue_input \<and>
    tool_log w' = tool_log session0 @ [(tool_X, JObj [(str ''a'', JStr (str ''1''))])] \<and>
    conversationHistory w' =
       slice_last 20 (conversationHistory session0 @ [status_turn (env_chain 1) session0 (JStr (str ''X''))]) \<and>
    dialog_log w' = dialog_log session0 @ [str ''hello'', continue_input] \<and>
    length (llm_log w') = length (llm_log session0) + 2"
    ..
  have r1: "callLLM (env_chain 1) session0 (str ''hello'') = Some (Inr (str ''All set.''), w')"
    using r by (simp add: reply_plain_def)
  have r2: "tool_log w' = [(tool_X, JObj [(str ''a'', JStr (str ''1''))])]"
    using r by (simp add: session0_def)
  have h: "conversationHistory w' = [status_turn (env_chain 1) session0 (JStr (str ''X''))]"
    using r by (simp add: session0_def slice_last_def)
  have r3: "map content (conversationHistory w') =
        [JSON_stringify (env_chain 1)
           (JObj [(str ''tool'', JStr (str ''X'')), (str ''status'', JStr (str ''success'')),
                  (str ''message'', JStr (str ''Data processing initiated''))])]"
    unfolding h by (simp add: status_turn_def tool_status_def)
  have r4: "map role (conversationHistory w') = [str ''user'']"
    unfolding h by (simp add: status_turn_def)
  have r5: "dialog_log w' = [str ''hello'', str ''Tool executed successfully. Please continue.'']"
    using r by (simp add: session0_def continue_input_def)
  have r6: "length (llm_log w') = 2"
    using r by (simp add: session0_def)
  show ?thesis
    by (intro conjI exI [of _ w'] pool listed named reply braces parsed(1) follow r1 r2 r3 r4 r5 r6)
qed

lemma callLLM_without_pool:
  assumes "\<not> mysqlPool e" and "generateContent e (length (llm_log w)) = LLMResponse r"
  shows "callLLM e w u = Some (Inr (resp_text r), count_tokens (log_call w u) r)"
  using assms(2) detect_without_pool [OF assms(1)] by (rule callLLM_plain)

text \<open>
  Without a database pool the tool-call reply naming the listed tool X is returned as
  it is, with no tool invoked and one provider call; and with a pool, a tool whose
  name is empty is not run by a reply naming it.
\<close>

theorem tool_call_not_run_counterexample:
  "tools session0 = Some [tool_X] \<and> tool_name tool_X = str ''X'' \<and>
   callLLM env_nopool session0 (str ''hello'') =
     Some (Inr tool_call_text, count_tokens (log_call session0 (str ''hello'')) reply_tool) \<and>
   tool_log (count_tokens (log_call session0 (str ''hello'')) reply_tool) = [] \<and>
   length (llm_log (count_tokens (log_call session0 (str ''hello'')) reply_tool)) = 1 \<and>
   mysqlPool env_unnamed \<and>
   callLLM env_unnamed (session0\<lparr>tools := Some [tool_unnamed]\<rparr>) (str ''hello'') =
     Some (Inr unnamed_call_text,
           count_tokens (log_call (session0\<lparr>tools := Some [tool_unnamed]\<rparr>) (str ''hello'')) reply_unnamed)"
proof -
  have a: "callLLM env_nopool session0 (str ''hello'') =
     Some (Inr (resp_text reply_tool), count_tokens (log_call session0 (str ''hello'')) reply_tool)"
    by (rule callLLM_without_pool) (simp_all add: env_nopool_def env_chain_def session0_def)
  let ?s = "session0\<lparr>tools := Some [tool_unnamed]\<rparr>"
  have g: "generateContent env_unnamed (length (llm_log ?s)) = LLMResponse reply_unnamed"
    by (simp add: env_unnamed_def)
  have n: "detect_tool_call env_unnamed (tools ?s) (resp_text reply_unnamed) = None"
    by (simp add: reply_unnamed_def detect_unnamed)
  have b: "callLLM env_unnamed ?s (str ''hello'') =
     Some (Inr (resp_text reply_unnamed), count_tokens (log_call ?s (str ''hello'')) reply_unnamed)"
    using g n by (rule callLLM_plain)
  show ?thesis
    using a b
    by (simp add: reply_tool_def reply_unnamed_def session0_def tool_X_def count_tokens_def
          log_call_def env_unnamed_def env_chain_def)
qed

text \<open>
  C10. Without a database pool, whatever the reply is (a tool-call object naming a
  listed tool included), the dialog turn returns the reply text as it is after one
  provider call: no tool is invoked, no request is sent, nothing is appended to the
  history and no follow-up call is made.
\<close>

theorem no_pool_no_tool:
  assumes nopool: "\<not> mysqlPool e"
    and reply: "generateContent e (length (llm_log w)) = LLMResponse r"
  shows "\<exists>w'. callLLM e w u = Some (Inr (resp_text r), w') \<and>
           tool_log w' = tool_log w \<and> http_log w' = http_log w \<and> sheet_log w' = sheet_log w \<and>
           conversationHistory w' = conversationHistory w \<and>
           dialog_log w' = dialog_log w @ [u] \<and>
           llm_log w' = llm_log w @ [llm_request_of w]"
  using callLLM_without_pool [OF nopool reply, of u]
  by (simp add: count_tokens_def log_call_def)

text \<open>The tool-call reply naming X, on a handler without a pool.\<close>

theorem no_pool_no_tool_witness:
  "\<not> mysqlPool env_nopool \<and>
   generateContent env_nopool (length (llm_log session0)) = LLMResponse reply_tool \<and>
   (\<exists>w'. callLLM env_nopool session0 (str ''book it'') = Some (Inr tool_call_text, w') \<and>
      tool_log w' = [] \<and> http_log w' = [] \<and> conversationHistory w' = [] \<and>
      dialog_log w' = [str ''book it''] \<and> length (llm_log w') = 1)"
proof -
  have nopool: "\<not> mysqlPool env_nopool"
    by (simp add: env_nopool_def)
  have reply: "generateContent env_nopool (length (llm_log session0)) = LLMResponse reply_tool"
    by (simp add: env_nopool_def env_chain_def session0_def)
  from no_pool_no_tool [OF nopool reply, of "(str ''book it'')"]
  have "\<exists>w'. callLLM env_nopool session0 (str ''book it'') = Some (Inr tool_call_text, w') \<and>
      tool_log w' = [] \<and> http_log w' = [] \<and> conversationHistory w' = [] \<and>
      dialog_log w' = [str ''book it''] \<and> length (llm_log w') = 1"
    by (auto simp: reply_tool_def session0_def)
  with nopool reply show ?thesis by blast
qed

text \<open>
  C8. When the provider call raises, the dialog turn returns the fixed apology text
  and no exception: at the first call, and at the follow-up call after any number of
  executed tool calls. A turn whose provider call returns need not yield text to
  speak: an empty reply is returned as the empty text.
\<close>

theorem llm_failure_apology:
  assumes calls: "\<forall>i<k. \<exists>r. generateContent e (length (llm_log w) + i) = LLMResponse r \<and>
              detect_tool_call e (tools w) (resp_text r) \<noteq> None"
    and fails: "generateContent e (length (llm_log w) + k) = LLMRaises"
  shows "\<exists>w'. callLLM e w u = Some (Inr apology, w') \<and>
           length (llm_log w') = length (llm_log w) + k + 1"
proof -
  have "generateContent e (length (llm_log w) + k) = LLMRaises \<and> apology = apology \<or>
         (\<exists>r. generateContent e (length (llm_log w) + k) = LLMResponse r \<and>
              detect_tool_call e (tools w) (resp_text r) = None \<and> apology = resp_text r)"
    using fails by simp
  from chain_result [OF calls this] show ?thesis
    by blast
qed

text \<open>One executed tool call, then the provider raises.\<close>

theorem llm_failure_apology_witness:
  "generateContent (env_fails_at 1) 0 = LLMResponse reply_tool \<and>
   detect_tool_call (env_fails_at 1) (tools session0) (resp_text reply_tool) \<noteq> None \<and>
   generateContent (env_fails_at 1) 1 = LLMRaises \<and>
   (\<exists>w'. callLLM (env_fails_at 1) session0 (str ''hello'') = Some (Inr apology, w') \<and>
      length (llm_log w') = 2)"
proof -
  have d: "detect_tool_call (env_fails_at 1) (tools session0) (resp_text reply_tool) \<noteq> None"
    by (simp add: detect_tool_X env_fails_at_def env_chain_def session0_def reply_tool_def)
  have calls: "\<forall>i<1. \<exists>r. generateContent (env_fails_at 1) (length (llm_log session0) + i) = LLMResponse r \<and>
        detect_tool_call (env_fails_at 1) (tools session0) (resp_text r) \<noteq> None"
    using d by (simp add: env_fails_at_def session0_def)
  have fails: "generateContent (env_fails_at 1) (length (llm_log session0) + 1) = LLMRaises"
    by (simp add: env_fails_at_def session0_def)
  from llm_failure_apology [OF calls fails, of "(str ''hello'')"]
  have "\<exists>w'. callLLM (env_fails_at 1) session0 (str ''hello'') = Some (Inr apology, w') \<and>
      length (llm_log w') = 2"
    by (auto simp: session0_def)
  moreover have "generateContent (env_fails_at 1) 0 = LLMResponse reply_tool"
    and "generateContent (env_fails_at 1) 1 = LLMRaises"
    by (simp_all add: env_fails_at_def)
  ultimately show ?thesis
    using d by blast
qed

text \<open>
  A provider that answers with the empty text: the dialog turn returns the empty
  text, and the turn pipeline sends no response, synthesizes nothing and appends
  nothing to the history.
\<close>

theorem empty_reply_counterexample:
  "callLLM env_empty session0 (str ''hello'') =
     Some (Inr [], count_tokens (log_call session0 (str ''hello'')) reply_empty) \<and>
   processUserInput env_empty session0 (str ''hello'') =
     Some (Inr (), count_tokens (log_call session0 (str ''hello'')) reply_empty) \<and>
   outbox (count_tokens (log_call session0 (str ''hello'')) reply_empty) = [] \<and>
   tts_log (count_tokens (log_call session0 (str ''hello'')) reply_empty) = [] \<and>
   conversationHistory (count_tokens (log_call session0 (str ''hello'')) reply_empty) = []"
proof -
  have n: "detect_tool_call env_empty ts [] = None" for ts
    by (simp add: detect_tool_call_def cleanText_def trim_def startsWith_def Let_def)
  have g: "generateContent env_empty (length (llm_log w)) = LLMResponse reply_empty" for w
    by (simp add: env_empty_def)
  have c: "callLLM env_empty w u = Some (Inr [], count_tokens (log_call w u) reply_empty)"
    for w u
    using callLLM_plain [OF g, of w u] n by (simp add: reply_empty_def)
  have p: "processUserInput env_empty session0 (str ''hello'') =
      Some (Inr (), count_tokens (log_call session0 (str ''hello'')) reply_empty)"
    by (simp add: processUserInput_def c)
       (simp add: session0_def count_tokens_def log_call_def llm_request_of_def)
  show ?thesis
    using c [of session0] p by (simp add: session0_def count_tokens_def log_call_def)
qed

section \<open>Short utterances\<close>

lemma nothing_buffered:
  "audioBuffer w = [] \<Longrightarrow> processBufferedAudio e w = Some (Inr (), w)"
  by (simp add: processBufferedAudio_def)

text \<open>
  C9. Processing a buffered utterance (at least one chunk) of fewer than 3200 bytes
  returns with the audio buffer empty and the timer reference cleared and nothing else
  changed: no transcription request, no dialog call, no provider call, no history
  entry and no event to the browser.
\<close>

theorem short_utterance_discarded:
  assumes buffered: "audioBuffer w \<noteq> []"
    and short: "length (concat (audioBuffer w)) < 3200"
  shows "\<exists>w'. processBufferedAudio e w = Some (Inr (), w') \<and>
           w' = w\<lparr>silenceTimer := None, audioBuffer := []\<rparr> \<and>
           audioBuffer w' = [] \<and> silenceTimer w' = None \<and>
           stt_log w' = stt_log w \<and> dialog_log w' = dialog_log w \<and>
           llm_log w' = llm_log w \<and> conversationHistory w' = conversationHistory w \<and>
           outbox w' = outbox w"
  using assms by (simp add: processBufferedAudio_def Let_def)

text \<open>Two chunks, six bytes, with a timer pending.\<close>

theorem short_utterance_discarded_witness:
  "audioBuffer (session0\<lparr>audioBuffer := short_utterance, silenceTimer := Some 7\<rparr>) \<noteq> [] \<and>
   length (concat (audioBuffer (session0\<lparr>audioBuffer := short_utterance, silenceTimer := Some 7\<rparr>))) < 3200 \<and>
   processBufferedAudio (env_chain 0) (session0\<lparr>audioBuffer := short_utterance, silenceTimer := Some 7\<rparr>) =
     Some (Inr (), session0)"
proof -
  let ?w = "session0\<lparr>audioBuffer := short_utterance, silenceTimer := Some 7\<rparr>"
  have b: "audioBuffer ?w \<noteq> []" by (simp add: short_utterance_def)
  have s: "length (concat (audioBuffer ?w)) < 3200" by (simp add: short_utterance_def)
  from short_utterance_discarded [OF b s, of "env_chain 0"]
  have "processBufferedAudio (env_chain 0) ?w = Some (Inr (), session0)"
    by (simp add: session0_def)
  with b s show ?thesis by blast
qed

end
